theory Spec2Isabelle
  imports Complex_Main
begin

section \<open>The host values and the result channel\<close>

text \<open>
  The N1QL functions of \<^verbatim>\<open>SQLiteN1QLFunctions.cc\<close> are SQLite callbacks
  \<^verbatim>\<open>fn(ctx, argc, argv)\<close>. An argument is a host value with one of five storage
  classes; the result is whatever the callback writes into the context with the
  \<^verbatim>\<open>sqlite3_result_*\<close> setters.

  A C \<^verbatim>\<open>double\<close> is a NaN, an infinity or a finite value, named by the real number it
  denotes. Comparisons are modelled exactly (they never round); arithmetic and the
  library functions of \<^verbatim>\<open>cmath\<close> round and are taken as parameters
  (record \<open>libm\<close>).
\<close>

datatype double = NaN | NInf | Fin real | PInf

text \<open>The operators \<^verbatim>\<open><\<close> and \<^verbatim>\<open>==\<close> of IEEE 754: false whenever an operand is NaN.\<close>

fun dlt :: "double \<Rightarrow> double \<Rightarrow> bool" where
  "dlt NaN b = False"
| "dlt a NaN = False"
| "dlt NInf NInf = False"
| "dlt NInf b = True"
| "dlt a NInf = False"
| "dlt PInf b = False"
| "dlt a PInf = True"
| "dlt (Fin x) (Fin y) = (x < y)"

fun deq :: "double \<Rightarrow> double \<Rightarrow> bool" where
  "deq NaN b = False"
| "deq a NaN = False"
| "deq NInf NInf = True"
| "deq PInf PInf = True"
| "deq (Fin x) (Fin y) = (x = y)"
| "deq a b = False"

text \<open>\<^verbatim>\<open>std::max(a, b)\<close> is \<^verbatim>\<open>(a < b) ? b : a\<close>; \<^verbatim>\<open>std::min(a, b)\<close> is \<^verbatim>\<open>(b < a) ? b : a\<close>.\<close>

definition std_max :: "double \<Rightarrow> double \<Rightarrow> double" where
  "std_max a b = (if dlt a b then b else a)"

definition std_min :: "double \<Rightarrow> double \<Rightarrow> double" where
  "std_min a b = (if dlt b a then b else a)"

text \<open>
  \<^verbatim>\<open>numeric_limits<double>::min()\<close> is the smallest positive normalised double, two to
  the power -1022 (about 2.2e-308); \<^verbatim>\<open>numeric_limits<double>::max()\<close> is the largest
  finite one, (2^53 - 1) * 2^971 (about 1.8e308).
\<close>

definition numeric_limits_min :: double where
  "numeric_limits_min = Fin (1 / 2 ^ 1022)"

definition numeric_limits_max :: double where
  "numeric_limits_max = Fin ((2 ^ 53 - 1) * 2 ^ 971)"

datatype sqlite3_value =
    SQLInteger int
  | SQLFloat double
  | SQLText string
  | SQLBlob string
  | SQLNull

datatype sqlite_type = SQLITE_INTEGER | SQLITE_FLOAT | SQLITE_TEXT | SQLITE_BLOB | SQLITE_NULL

fun sqlite3_value_type :: "sqlite3_value \<Rightarrow> sqlite_type" where
  "sqlite3_value_type (SQLInteger i) = SQLITE_INTEGER"
| "sqlite3_value_type (SQLFloat d) = SQLITE_FLOAT"
| "sqlite3_value_type (SQLText s) = SQLITE_TEXT"
| "sqlite3_value_type (SQLBlob b) = SQLITE_BLOB"
| "sqlite3_value_type SQLNull = SQLITE_NULL"

text \<open>
  The accessors of a host value convert between storage classes. What SQLite does when
  the stored class is not the requested one (rendering a number as text, reading a
  number out of text, widening a 64-bit integer to a double) is the host's business and a
  parameter of the model.
\<close>

record sqlite3_conv =
  num_text :: "sqlite3_value \<Rightarrow> string"
  text_int :: "string \<Rightarrow> int"
  text_double :: "string \<Rightarrow> double"
  double_int :: "double \<Rightarrow> int"
  int_double :: "int \<Rightarrow> double"

fun sqlite3_value_bytes :: "sqlite3_conv \<Rightarrow> sqlite3_value \<Rightarrow> nat" where
  "sqlite3_value_bytes cv SQLNull = 0"
| "sqlite3_value_bytes cv (SQLText s) = length s"
| "sqlite3_value_bytes cv (SQLBlob b) = length b"
| "sqlite3_value_bytes cv v = length (num_text cv v)"

text \<open>\<^verbatim>\<open>sqlite3_value_text\<close>: a null pointer (\<open>None\<close>) for a host NULL.\<close>

fun sqlite3_value_text :: "sqlite3_conv \<Rightarrow> sqlite3_value \<Rightarrow> string option" where
  "sqlite3_value_text cv SQLNull = None"
| "sqlite3_value_text cv (SQLText s) = Some s"
| "sqlite3_value_text cv (SQLBlob b) = Some b"
| "sqlite3_value_text cv v = Some (num_text cv v)"

fun sqlite3_value_double :: "sqlite3_conv \<Rightarrow> sqlite3_value \<Rightarrow> double" where
  "sqlite3_value_double cv (SQLFloat d) = d"
| "sqlite3_value_double cv (SQLInteger i) = int_double cv i"
| "sqlite3_value_double cv SQLNull = Fin 0"
| "sqlite3_value_double cv (SQLText s) = text_double cv s"
| "sqlite3_value_double cv (SQLBlob b) = text_double cv b"

text \<open>\<^verbatim>\<open>sqlite3_value_int\<close> is the 64-bit value cut to a 32-bit \<^verbatim>\<open>int\<close>.\<close>

definition to_int32 :: "int \<Rightarrow> int" where
  "to_int32 i = (i + 2 ^ 31) mod 2 ^ 32 - 2 ^ 31"

fun sqlite3_value_int64 :: "sqlite3_conv \<Rightarrow> sqlite3_value \<Rightarrow> int" where
  "sqlite3_value_int64 cv (SQLInteger i) = i"
| "sqlite3_value_int64 cv (SQLFloat d) = double_int cv d"
| "sqlite3_value_int64 cv SQLNull = 0"
| "sqlite3_value_int64 cv (SQLText s) = text_int cv s"
| "sqlite3_value_int64 cv (SQLBlob b) = text_int cv b"

definition sqlite3_value_int :: "sqlite3_conv \<Rightarrow> sqlite3_value \<Rightarrow> int" where
  "sqlite3_value_int cv v = to_int32 (sqlite3_value_int64 cv v)"


text \<open>A pointer cast to \<^verbatim>\<open>char*\<close> and read as a C string ends at the first NUL byte.\<close>

definition c_str :: "string \<Rightarrow> string" where
  "c_str s = takeWhile (\<lambda>c. c \<noteq> CHR 0x00) s"

text \<open>
  The context: \<^verbatim>\<open>sqlite3_context\<close> is modelled by the sequence of result-setter calls made
  on it, oldest first. A callback that sets no result leaves it as it found it. SQLite
  keeps two things in a context: the output cell, which every setter overwrites, and the
  error flag, which \<^verbatim>\<open>sqlite3_result_error\<close> sets to \<^verbatim>\<open>SQLITE_ERROR\<close> and no other setter
  used in this file clears. So the output cell holds the last entry of the sequence, and
  an error is pending as soon as one entry is a \<open>ResultError\<close>; \<open>host_result\<close> below
  reads the sequence as the host does.

  \<^verbatim>\<open>sqlite3_result_error(ctx, z, n)\<close> takes the message \<open>z\<close> and its length \<open>n\<close> in bytes
  (the whole C string when \<open>n\<close> is negative); it has no parameter for an error code. The
  entry \<open>ResultError m\<close> carries the message as SQLite stores it. The two setters of the
  repository's own bridge (\<^verbatim>\<open>setResultBlobFromSlice\<close>, \<^verbatim>\<open>setResultFromValue\<close>, not under
  src/) are recorded as calls with their argument. By the convention of the functions a
  zero-byte binary stands for the N1QL null, and a host NULL or no result at all for
  missing.
\<close>

datatype valueType = kNull | kBoolean | kNumber | kString | kData | kArray | kDict

datatype fvalue =
    FNull
  | FBoolean bool
  | FNumber double
  | FString string
  | FData string
  | FArray "fvalue list"
  | FDict "(string \<times> fvalue) list"

type_synonym slice = "string option"

datatype sqlite3_write =
    ResultNull
  | ResultInt int
  | ResultInt64 int
  | ResultDouble double
  | ResultText string
  | ResultZeroblob nat
  | ResultValue sqlite3_value
  | ResultError string
  | SetResultBlobFromSlice slice
  | SetResultFromValue fvalue

type_synonym sqlite3_context = "sqlite3_write list"

text \<open>The constants of \<^verbatim>\<open>sqlite3.h\<close>.\<close>

definition SQLITE_ERROR :: int where
  "SQLITE_ERROR = 1"

definition SQLITE_MISMATCH :: int where
  "SQLITE_MISMATCH = 20"

definition sqlite3_result_null :: "sqlite3_context \<Rightarrow> sqlite3_context" where
  "sqlite3_result_null ctx = ctx @ [ResultNull]"

definition sqlite3_result_int :: "sqlite3_context \<Rightarrow> int \<Rightarrow> sqlite3_context" where
  "sqlite3_result_int ctx i = ctx @ [ResultInt i]"

definition sqlite3_result_int64 :: "sqlite3_context \<Rightarrow> int \<Rightarrow> sqlite3_context" where
  "sqlite3_result_int64 ctx i = ctx @ [ResultInt64 i]"

definition sqlite3_result_double :: "sqlite3_context \<Rightarrow> double \<Rightarrow> sqlite3_context" where
  "sqlite3_result_double ctx d = ctx @ [ResultDouble d]"

definition sqlite3_result_text :: "sqlite3_context \<Rightarrow> string \<Rightarrow> sqlite3_context" where
  "sqlite3_result_text ctx s = ctx @ [ResultText s]"

definition sqlite3_result_zeroblob :: "sqlite3_context \<Rightarrow> nat \<Rightarrow> sqlite3_context" where
  "sqlite3_result_zeroblob ctx n = ctx @ [ResultZeroblob n]"

definition sqlite3_result_value :: "sqlite3_context \<Rightarrow> sqlite3_value \<Rightarrow> sqlite3_context" where
  "sqlite3_result_value ctx v = ctx @ [ResultValue v]"

text \<open>
  \<^verbatim>\<open>sqlite3_result_error(ctx, z, n)\<close>: the first \<open>n\<close> bytes of \<open>z\<close> become the message, all
  of the C string when \<open>n\<close> is negative. (With \<open>n\<close> beyond the end of the string the C
  code reads past it; no call of the source reaches that case.)
\<close>

definition sqlite3_result_error :: "sqlite3_context \<Rightarrow> string \<Rightarrow> int \<Rightarrow> sqlite3_context" where
  "sqlite3_result_error ctx z n =
     ctx @ [ResultError (if n < 0 then c_str z else take (nat n) z)]"

definition setResultBlobFromSlice :: "sqlite3_context \<Rightarrow> slice \<Rightarrow> sqlite3_context" where
  "setResultBlobFromSlice ctx sl = ctx @ [SetResultBlobFromSlice sl]"

definition setResultFromValue :: "sqlite3_context \<Rightarrow> fvalue \<Rightarrow> sqlite3_context" where
  "setResultFromValue ctx v = ctx @ [SetResultFromValue v]"

text \<open>
  What the host gets when the callback has returned. With an error pending the statement
  fails with the code of the error flag, whatever was set afterwards (the output cell,
  carried along, supplies the text of the message); otherwise the host reads the output
  cell, which is a host NULL when no setter was called.
\<close>

fun is_error :: "sqlite3_write \<Rightarrow> bool" where
  "is_error (ResultError m) = True"
| "is_error w = False"

definition has_error :: "sqlite3_context \<Rightarrow> bool" where
  "has_error ctx = list_ex is_error ctx"

datatype host_result =
    HostNoResult
  | HostValue sqlite3_write
  | HostFails int sqlite3_write

definition host_result :: "sqlite3_context \<Rightarrow> host_result" where
  "host_result ctx =
     (case rev ctx of
        [] \<Rightarrow> HostNoResult
      | w # ws \<Rightarrow> if has_error ctx then HostFails SQLITE_ERROR w else HostValue w)"

text \<open>
  What a callback can do instead of returning: read \<^verbatim>\<open>argv[i]\<close> with \<^verbatim>\<open>i >= argc\<close>, hand a
  null pointer to a function that reads a C string, dereference the end-of-sequence
  regex iterator (all undefined behaviour in C++), or let an exception escape a
  \<^verbatim>\<open>noexcept\<close> function, which calls \<^verbatim>\<open>std::terminate\<close>.
\<close>

datatype fault = OutOfBoundsRead | NullPointerRead | EndIteratorDereference | Terminate

section \<open>The document bridge\<close>

text \<open>
  \<^verbatim>\<open>fleeceParam(ctx, arg)\<close> (SQLiteFleeceUtil, not under src/) decodes a blob argument and
  returns the root of the document or a null pointer; it is handed the context and may
  report through it. \<^verbatim>\<open>Value::toString()\<close> belongs to the Fleece library. Both are
  parameters: every theorem below holds whatever they do.
\<close>

record fleece_api =
  fleeceParam :: "sqlite3_context \<Rightarrow> sqlite3_value \<Rightarrow> sqlite3_context \<times> fvalue option"
  toString :: "fvalue \<Rightarrow> string"

fun fvalue_type :: "fvalue \<Rightarrow> valueType" where
  "fvalue_type FNull = kNull"
| "fvalue_type (FBoolean b) = kBoolean"
| "fvalue_type (FNumber d) = kNumber"
| "fvalue_type (FString s) = kString"
| "fvalue_type (FData b) = kData"
| "fvalue_type (FArray xs) = kArray"
| "fvalue_type (FDict kvs) = kDict"

text \<open>
  \<^verbatim>\<open>Array::iterator item(root->asArray())\<close>: \<^verbatim>\<open>asArray()\<close> is a null pointer for a value
  that is not an array, and the iterator over a null array is empty.
\<close>

fun asArray_items :: "fvalue \<Rightarrow> fvalue list" where
  "asArray_items (FArray xs) = xs"
| "asArray_items v = []"

text \<open>
  \<^verbatim>\<open>Value::asDouble()\<close> of the Fleece library: the number itself; 1 and 0 for the booleans; 0
  for every other value.
\<close>

fun asDouble :: "fvalue \<Rightarrow> double" where
  "asDouble (FNumber d) = d"
| "asDouble (FBoolean b) = (if b then Fin 1 else Fin 0)"
| "asDouble v = Fin 0"

text \<open>
  Modelled from the spec: \<^verbatim>\<open>valueAsSlice\<close> and \<^verbatim>\<open>valueAsStringSlice\<close> (SQLite_Internal.hh,
  not under src/). The spec's asByteString: "for string tag returns the textual bytes; for
  binary tag returns the raw bytes without decoding"; they wrap \<^verbatim>\<open>sqlite3_value_blob\<close> and
  \<^verbatim>\<open>sqlite3_value_text\<close> with \<^verbatim>\<open>sqlite3_value_bytes\<close>. A host NULL gives the null slice
  (\<open>None\<close>).
\<close>

definition valueAsSlice :: "sqlite3_conv \<Rightarrow> sqlite3_value \<Rightarrow> slice" where
  "valueAsSlice cv v = sqlite3_value_text cv v"

definition valueAsStringSlice :: "sqlite3_conv \<Rightarrow> sqlite3_value \<Rightarrow> slice" where
  "valueAsStringSlice cv v = sqlite3_value_text cv v"

definition slice_size :: "slice \<Rightarrow> nat" where
  "slice_size sl = (case sl of None \<Rightarrow> 0 | Some b \<Rightarrow> length b)"

definition asString :: "slice \<Rightarrow> string" where
  "asString sl = (case sl of None \<Rightarrow> [] | Some b \<Rightarrow> b)"

text \<open>\<^verbatim>\<open>slice::compare\<close>: \<^verbatim>\<open>memcmp\<close> over the common length, then the shorter slice first.\<close>

fun bytes_compare :: "string \<Rightarrow> string \<Rightarrow> int" where
  "bytes_compare [] [] = 0"
| "bytes_compare [] (y # ys) = - 1"
| "bytes_compare (x # xs) [] = 1"
| "bytes_compare (x # xs) (y # ys) =
     (if x = y then bytes_compare xs ys
      else if (of_char x :: nat) < of_char y then - 1 else 1)"

definition slice_compare :: "slice \<Rightarrow> slice \<Rightarrow> int" where
  "slice_compare a b = bytes_compare (asString a) (asString b)"


section \<open>Array aggregates\<close>

text \<open>
  The two fold helpers call \<^verbatim>\<open>op(item, stop)\<close> on every member of every array argument. A
  callback is a function from the fed item and the variables its lambda captures by
  reference to their new values and the value of \<^verbatim>\<open>stop\<close> after the call. The helper tests
  \<^verbatim>\<open>stop\<close> after every call and returns when it is set, so it is false at every call.
\<close>

fun each_double :: "(double \<Rightarrow> 's \<Rightarrow> 's \<times> bool) \<Rightarrow> fvalue list \<Rightarrow> 's \<Rightarrow> 's \<times> bool" where
  "each_double op [] s = (s, False)"
| "each_double op (item # items) s =
     (case op (asDouble item) s of
        (s', stop) \<Rightarrow> if stop then (s', True) else each_double op items s')"

fun each_value :: "(fvalue \<Rightarrow> 's \<Rightarrow> 's \<times> bool) \<Rightarrow> fvalue list \<Rightarrow> 's \<Rightarrow> 's \<times> bool" where
  "each_value op [] s = (s, False)"
| "each_value op (item # items) s =
     (case op item s of
        (s', stop) \<Rightarrow> if stop then (s', True) else each_value op items s')"

fun aggregateNumericArrayOperation ::
  "fleece_api \<Rightarrow> sqlite3_context \<Rightarrow> sqlite3_value list \<Rightarrow> (double \<Rightarrow> 's \<Rightarrow> 's \<times> bool) \<Rightarrow> 's
     \<Rightarrow> sqlite3_context \<times> 's" where
  "aggregateNumericArrayOperation fl ctx [] op s = (ctx, s)"
| "aggregateNumericArrayOperation fl ctx (arg # argv) op s =
     (case sqlite3_value_type arg of
        SQLITE_BLOB \<Rightarrow>
          (case fleeceParam fl ctx arg of
             (ctx', None) \<Rightarrow> (ctx', s)
           | (ctx', Some rt) \<Rightarrow>
               (case each_double op (asArray_items rt) s of
                  (s', stop) \<Rightarrow>
                    if stop then (ctx', s')
                    else aggregateNumericArrayOperation fl ctx' argv op s'))
      | SQLITE_NULL \<Rightarrow> (sqlite3_result_null ctx, s)
      | _ \<Rightarrow> (sqlite3_result_zeroblob ctx 0, s))"

fun aggregateArrayOperation ::
  "fleece_api \<Rightarrow> sqlite3_context \<Rightarrow> sqlite3_value list \<Rightarrow> (fvalue \<Rightarrow> 's \<Rightarrow> 's \<times> bool) \<Rightarrow> 's
     \<Rightarrow> sqlite3_context \<times> 's" where
  "aggregateArrayOperation fl ctx [] op s = (ctx, s)"
| "aggregateArrayOperation fl ctx (arg # argv) op s =
     (case sqlite3_value_type arg of
        SQLITE_BLOB \<Rightarrow>
          (case fleeceParam fl ctx arg of
             (ctx', None) \<Rightarrow> (ctx', s)
           | (ctx', Some rt) \<Rightarrow>
               if fvalue_type rt \<noteq> kArray then (sqlite3_result_zeroblob ctx' 0, s)
               else
                 (case each_value op (asArray_items rt) s of
                    (s', stop) \<Rightarrow>
                      if stop then (ctx', s')
                      else aggregateArrayOperation fl ctx' argv op s'))
      | SQLITE_NULL \<Rightarrow> (sqlite3_result_null ctx, s)
      | _ \<Rightarrow> (sqlite3_result_zeroblob ctx 0, s))"

text \<open>
  Floating-point multiplication, division and the functions of \<^verbatim>\<open>cmath\<close>: parameters,
  since they round. The addition of doubles is a parameter of \<^verbatim>\<open>fl_array_sum\<close>.
\<close>

record libm =
  fmul :: "double \<Rightarrow> double \<Rightarrow> double"
  fdiv :: "double \<Rightarrow> double \<Rightarrow> double"
  c_abs :: "double \<Rightarrow> double"
  c_acos :: "double \<Rightarrow> double"
  c_asin :: "double \<Rightarrow> double"
  c_atan :: "double \<Rightarrow> double"
  c_ceil :: "double \<Rightarrow> double"
  c_cos :: "double \<Rightarrow> double"
  c_exp :: "double \<Rightarrow> double"
  c_floor :: "double \<Rightarrow> double"
  c_log :: "double \<Rightarrow> double"
  c_log10 :: "double \<Rightarrow> double"
  c_sin :: "double \<Rightarrow> double"
  c_sqrt :: "double \<Rightarrow> double"
  c_tan :: "double \<Rightarrow> double"
  c_atan2 :: "double \<Rightarrow> double \<Rightarrow> double"
  c_pow :: "double \<Rightarrow> double \<Rightarrow> double"
  c_round :: "double \<Rightarrow> double"
  c_trunc :: "double \<Rightarrow> double"
  M_PI :: double
  M_E :: double

definition fl_array_sum ::
  "(double \<Rightarrow> double \<Rightarrow> double) \<Rightarrow> fleece_api \<Rightarrow> sqlite3_context \<Rightarrow> sqlite3_value list
     \<Rightarrow> sqlite3_context" where
  "fl_array_sum fadd fl ctx argv =
     (case aggregateNumericArrayOperation fl ctx argv (\<lambda>num sm. (fadd sm num, False)) (Fin 0) of
        (ctx', sm) \<Rightarrow> sqlite3_result_double ctx' sm)"

text \<open>
  \<^verbatim>\<open>fl_array_contains\<close> reads \<^verbatim>\<open>argv[1]\<close> before anything else, whatever \<^verbatim>\<open>argc\<close> is; the
  function is registered with arity -1, so the host calls it with any number of
  arguments.
\<close>

definition fl_array_contains ::
  "fleece_api \<Rightarrow> sqlite3_conv \<Rightarrow> sqlite3_context \<Rightarrow> sqlite3_value list \<Rightarrow> fault + sqlite3_context" where
  "fl_array_contains fl cv ctx argv =
     (case argv of
        a0 # a1 # rest \<Rightarrow>
          (let comparand = valueAsStringSlice cv a1 in
           case aggregateArrayOperation fl ctx argv
                  (\<lambda>val found.
                     if slice_compare (Some (toString fl val)) comparand = 0 then (True, True)
                     else (found, False))
                  False of
             (ctx', found) \<Rightarrow> Inr (sqlite3_result_int ctx' (if found then 1 else 0)))
      | _ \<Rightarrow> Inl OutOfBoundsRead)"

definition fl_array_max :: "fleece_api \<Rightarrow> sqlite3_context \<Rightarrow> sqlite3_value list \<Rightarrow> sqlite3_context" where
  "fl_array_max fl ctx argv =
     (case aggregateNumericArrayOperation fl ctx argv
             (\<lambda>num (mx, nonEmpty). ((std_max num mx, True), False))
             (numeric_limits_min, False) of
        (ctx', (mx, nonEmpty)) \<Rightarrow>
          if nonEmpty then sqlite3_result_double ctx' mx else sqlite3_result_zeroblob ctx' 0)"

definition fl_array_min :: "fleece_api \<Rightarrow> sqlite3_context \<Rightarrow> sqlite3_value list \<Rightarrow> sqlite3_context" where
  "fl_array_min fl ctx argv =
     (case aggregateNumericArrayOperation fl ctx argv
             (\<lambda>num (mx, nonEmpty). ((std_min num mx, True), False))
             (numeric_limits_max, False) of
        (ctx', (mx, nonEmpty)) \<Rightarrow>
          if nonEmpty then sqlite3_result_double ctx' mx else sqlite3_result_zeroblob ctx' 0)"

section \<open>Conditional tests\<close>

fun ifmissing :: "sqlite3_context \<Rightarrow> sqlite3_value list \<Rightarrow> sqlite3_context" where
  "ifmissing ctx [] = ctx"
| "ifmissing ctx (a # argv) =
     (if sqlite3_value_type a \<noteq> SQLITE_NULL then sqlite3_result_value ctx a
      else ifmissing ctx argv)"

fun ifmissingornull :: "sqlite3_conv \<Rightarrow> sqlite3_context \<Rightarrow> sqlite3_value list \<Rightarrow> sqlite3_context" where
  "ifmissingornull cv ctx [] = ctx"
| "ifmissingornull cv ctx (a # argv) =
     (if sqlite3_value_type a \<noteq> SQLITE_NULL \<and> sqlite3_value_bytes cv a > 0
      then sqlite3_result_value ctx a
      else ifmissingornull cv ctx argv)"

fun ifnull :: "sqlite3_conv \<Rightarrow> sqlite3_context \<Rightarrow> sqlite3_value list \<Rightarrow> sqlite3_context" where
  "ifnull cv ctx [] = ctx"
| "ifnull cv ctx (a # argv) =
     (if sqlite3_value_bytes cv a > 0 then sqlite3_result_value ctx a
      else ifnull cv ctx argv)"

text \<open>
  \<^verbatim>\<open>missingif\<close> and \<^verbatim>\<open>nullif\<close>: the first \<^verbatim>\<open>if\<close> has no \<^verbatim>\<open>return\<close>, so the comparison
  that follows runs in every case and writes again.
\<close>

definition missingif :: "sqlite3_conv \<Rightarrow> sqlite3_context \<Rightarrow> sqlite3_value list \<Rightarrow> fault + sqlite3_context" where
  "missingif cv ctx argv =
     (case argv of
        a0 # a1 # rest \<Rightarrow>
          (let slice0 = valueAsSlice cv a0;
               slice1 = valueAsSlice cv a1;
               ctx1 = (if slice0 = None \<or> slice1 = None \<or> slice_size slice0 = 0 \<or> slice_size slice1 = 0
                       then sqlite3_result_null ctx else ctx)
           in Inr (if slice_compare slice0 slice1 = 0 then sqlite3_result_null ctx1
                   else setResultBlobFromSlice ctx1 slice0))
      | _ \<Rightarrow> Inl OutOfBoundsRead)"

definition nullif :: "sqlite3_conv \<Rightarrow> sqlite3_context \<Rightarrow> sqlite3_value list \<Rightarrow> fault + sqlite3_context" where
  "nullif cv ctx argv =
     (case argv of
        a0 # a1 # rest \<Rightarrow>
          (let slice0 = valueAsSlice cv a0;
               slice1 = valueAsSlice cv a1;
               ctx1 = (if slice0 = None \<or> slice1 = None \<or> slice_size slice0 = 0 \<or> slice_size slice1 = 0
                       then sqlite3_result_null ctx else ctx)
           in Inr (if slice_compare slice0 slice1 = 0 then sqlite3_result_zeroblob ctx1 0
                   else setResultBlobFromSlice ctx1 slice0))
      | _ \<Rightarrow> Inl OutOfBoundsRead)"

section \<open>Strings\<close>

text \<open>
  \<^verbatim>\<open>string::find_first_not_of\<close> and \<^verbatim>\<open>find_last_not_of\<close>: the position of the first (last)
  byte that is not in the set, \<open>None\<close> for \<^verbatim>\<open>string::npos\<close>.
\<close>

fun first_not_of_from :: "nat \<Rightarrow> string \<Rightarrow> string \<Rightarrow> nat option" where
  "first_not_of_from i [] cs = None"
| "first_not_of_from i (x # xs) cs =
     (if x \<in> set cs then first_not_of_from (Suc i) xs cs else Some i)"

definition find_first_not_of :: "string \<Rightarrow> string \<Rightarrow> nat option" where
  "find_first_not_of s cs = first_not_of_from 0 s cs"

definition find_last_not_of :: "string \<Rightarrow> string \<Rightarrow> nat option" where
  "find_last_not_of s cs =
     (case find_first_not_of (rev s) cs of
        None \<Rightarrow> None
      | Some i \<Rightarrow> Some (length s - 1 - i))"

text \<open>\<^verbatim>\<open>isspace\<close> in the C locale: space, and the control characters 9 to 13.\<close>

definition isspace :: "char \<Rightarrow> bool" where
  "isspace c = (c = CHR 0x20 \<or> c = CHR 0x09 \<or> c = CHR 0x0A \<or> c = CHR 0x0B \<or> c = CHR 0x0C \<or> c = CHR 0x0D)"

text \<open>
  The helpers \<^verbatim>\<open>ltrim(string&, const char*)\<close> and \<^verbatim>\<open>rtrim(string&, const char*)\<close>; \<open>None\<close>
  is the default argument \<^verbatim>\<open>nullptr\<close>. The set is a C string: it ends at its first NUL.
\<close>

definition ltrim :: "string \<Rightarrow> string option \<Rightarrow> string" where
  "ltrim s chars =
     (case chars of
        Some cs \<Rightarrow>
          (case find_first_not_of s (c_str cs) of
             Some startPos \<Rightarrow> drop startPos s
           | None \<Rightarrow> s)
      | None \<Rightarrow> dropWhile isspace s)"

definition rtrim :: "string \<Rightarrow> string option \<Rightarrow> string" where
  "rtrim s chars =
     (case chars of
        Some cs \<Rightarrow>
          (case find_last_not_of s (c_str cs) of
             Some endPos \<Rightarrow> take (endPos + 1) s
           | None \<Rightarrow> s)
      | None \<Rightarrow> rev (dropWhile isspace (rev s)))"

text \<open>
  The callbacks \<^verbatim>\<open>ltrim\<close>, \<^verbatim>\<open>rtrim\<close> and \<^verbatim>\<open>trim\<close> (arity 1 or 2). With two arguments the
  set is \<^verbatim>\<open>sqlite3_value_text(argv[1])\<close>, a null pointer for a host NULL.
\<close>

definition ltrim_fn :: "sqlite3_conv \<Rightarrow> sqlite3_context \<Rightarrow> sqlite3_value list \<Rightarrow> fault + sqlite3_context" where
  "ltrim_fn cv ctx argv =
     (case argv of
        [] \<Rightarrow> Inl OutOfBoundsRead
      | a0 # rest \<Rightarrow>
          (let val = asString (valueAsStringSlice cv a0) in
           if length argv = 2
           then Inr (sqlite3_result_text ctx (ltrim val (sqlite3_value_text cv (hd rest))))
           else Inr (sqlite3_result_text ctx (ltrim val None))))"

definition rtrim_fn :: "sqlite3_conv \<Rightarrow> sqlite3_context \<Rightarrow> sqlite3_value list \<Rightarrow> fault + sqlite3_context" where
  "rtrim_fn cv ctx argv =
     (case argv of
        [] \<Rightarrow> Inl OutOfBoundsRead
      | a0 # rest \<Rightarrow>
          (let val = asString (valueAsStringSlice cv a0) in
           if length argv = 2
           then Inr (sqlite3_result_text ctx (rtrim val (sqlite3_value_text cv (hd rest))))
           else Inr (sqlite3_result_text ctx (rtrim val None))))"


section \<open>Regular expressions\<close>

text \<open>
  \<^verbatim>\<open>std::regex\<close> is a parameter: whether the constructor throws \<^verbatim>\<open>regex_error\<close> on a
  pattern, what \<^verbatim>\<open>regex_search\<close> finds first in a subject, the matches an
  \<^verbatim>\<open>sregex_iterator\<close> runs through, and what \<^verbatim>\<open>format\<close> makes of a match and a replacement
  text. A match is known by its prefix (for an iterator: the text since the match before),
  the matched text and its suffix.
\<close>

record match_results =
  m_prefix :: string
  m_str :: string
  m_suffix :: string

record regex_lib =
  regex_error :: "string \<Rightarrow> bool"
  regex_search :: "string \<Rightarrow> string \<Rightarrow> match_results option"
  sregex_iterator :: "string \<Rightarrow> string \<Rightarrow> match_results list"
  match_format :: "match_results \<Rightarrow> string \<Rightarrow> string"

definition regexp_like ::
  "regex_lib \<Rightarrow> sqlite3_conv \<Rightarrow> sqlite3_context \<Rightarrow> sqlite3_value list \<Rightarrow> fault + sqlite3_context" where
  "regexp_like rx cv ctx argv =
     (case argv of
        a0 # a1 # rest \<Rightarrow>
          (case valueAsStringSlice cv a1 of
             None \<Rightarrow> Inl NullPointerRead
           | Some p \<Rightarrow>
               if regex_error rx (c_str p) then Inl Terminate
               else
                 (case valueAsStringSlice cv a0 of
                    None \<Rightarrow> Inl NullPointerRead
                  | Some s \<Rightarrow>
                      Inr (sqlite3_result_int ctx
                             (case regex_search rx (c_str p) (c_str s) of
                                Some m \<Rightarrow> 1
                              | None \<Rightarrow> 0))))
      | _ \<Rightarrow> Inl OutOfBoundsRead)"

definition regexp_position ::
  "regex_lib \<Rightarrow> sqlite3_conv \<Rightarrow> sqlite3_context \<Rightarrow> sqlite3_value list \<Rightarrow> fault + sqlite3_context" where
  "regexp_position rx cv ctx argv =
     (case argv of
        a0 # a1 # rest \<Rightarrow>
          (case valueAsStringSlice cv a1 of
             None \<Rightarrow> Inl NullPointerRead
           | Some p \<Rightarrow>
               if regex_error rx (c_str p) then Inl Terminate
               else
                 (case valueAsStringSlice cv a0 of
                    None \<Rightarrow> Inl NullPointerRead
                  | Some s \<Rightarrow>
                      (case regex_search rx (c_str p) (c_str s) of
                         None \<Rightarrow> Inr (sqlite3_result_int64 ctx (- 1))
                       | Some pattern_match \<Rightarrow>
                           Inr (sqlite3_result_int64 ctx (int (length (m_prefix pattern_match)))))))
      | _ \<Rightarrow> Inl OutOfBoundsRead)"

text \<open>
  The loop of \<^verbatim>\<open>regexp_replace\<close>, \<^verbatim>\<open>for(; n-- && iter != stop; ++iter)\<close>: the iterator is the
  list of matches still to come, \<^verbatim>\<open>last_iter\<close> is the match it last stood on, \<open>None\<close> when it
  is the end-of-sequence iterator. The test \<^verbatim>\<open>n--\<close> stops the loop when \<open>n\<close> is 0, before
  the iterator is looked at. (\<open>n\<close> is a C \<^verbatim>\<open>int\<close>; counting down from -1 it would overflow
  only after 2^31 - 1 matches, more than a host string can hold.)
\<close>

fun replace_loop ::
  "(match_results \<Rightarrow> string \<Rightarrow> string) \<Rightarrow> string \<Rightarrow> int \<Rightarrow> match_results list
     \<Rightarrow> match_results option \<Rightarrow> string \<Rightarrow> string \<times> match_results option" where
  "replace_loop fmt repl n [] last_iter out = (out, last_iter)"
| "replace_loop fmt repl n (m # iter) last_iter out =
     (if n = 0 then (out, last_iter)
      else replace_loop fmt repl (n - 1) iter (Some m) (out @ m_prefix m @ fmt m repl))"

definition regexp_replace ::
  "regex_lib \<Rightarrow> sqlite3_conv \<Rightarrow> sqlite3_context \<Rightarrow> sqlite3_value list \<Rightarrow> fault + sqlite3_context" where
  "regexp_replace rx cv ctx argv =
     (case argv of
        a0 # a1 # a2 # rest \<Rightarrow>
          (let expression = asString (valueAsStringSlice cv a0);
               pattern = valueAsStringSlice cv a1;
               repl = asString (valueAsStringSlice cv a2);
               n = (if length argv = 4 then sqlite3_value_int cv (hd rest) else - 1)
           in case pattern of
                None \<Rightarrow> Inl NullPointerRead
              | Some p \<Rightarrow>
                  if regex_error rx (c_str p) then Inl Terminate
                  else
                    (let iter = sregex_iterator rx (c_str p) expression in
                     case replace_loop (match_format rx) repl n iter
                            (case iter of [] \<Rightarrow> None | m # ms \<Rightarrow> Some m) [] of
                       (out, None) \<Rightarrow> Inl EndIteratorDereference
                     | (out, Some last_iter) \<Rightarrow>
                         Inr (sqlite3_result_text ctx (out @ m_suffix last_iter))))
      | _ \<Rightarrow> Inl OutOfBoundsRead)"

section \<open>Math\<close>

text \<open>
  \<^verbatim>\<open>isNumeric\<close> hands \<^verbatim>\<open>SQLITE_MISMATCH\<close> to \<^verbatim>\<open>sqlite3_result_error\<close> as its third
  argument, which is the length of the message.
\<close>

definition isNumeric :: "sqlite3_context \<Rightarrow> sqlite3_value \<Rightarrow> sqlite3_context \<times> bool" where
  "isNumeric ctx arg =
     (let ty = sqlite3_value_type arg in
      if ty = SQLITE_FLOAT \<or> ty = SQLITE_INTEGER then (ctx, True)
      else (sqlite3_result_error ctx ''Invalid numeric value'' SQLITE_MISMATCH, False))"

definition unaryFunction ::
  "sqlite3_conv \<Rightarrow> sqlite3_context \<Rightarrow> sqlite3_value list \<Rightarrow> (double \<Rightarrow> double) \<Rightarrow> fault + sqlite3_context" where
  "unaryFunction cv ctx argv fn =
     (case argv of
        [] \<Rightarrow> Inl OutOfBoundsRead
      | arg # rest \<Rightarrow>
          (case isNumeric ctx arg of
             (ctx', True) \<Rightarrow> Inr (sqlite3_result_double ctx' (fn (sqlite3_value_double cv arg)))
           | (ctx', False) \<Rightarrow> Inr ctx'))"

type_synonym callback = "sqlite3_context \<Rightarrow> sqlite3_value list \<Rightarrow> fault + sqlite3_context"

definition fl_abs :: "libm \<Rightarrow> sqlite3_conv \<Rightarrow> callback" where
  "fl_abs lm cv ctx argv = unaryFunction cv ctx argv (c_abs lm)"

definition fl_acos :: "libm \<Rightarrow> sqlite3_conv \<Rightarrow> callback" where
  "fl_acos lm cv ctx argv = unaryFunction cv ctx argv (c_acos lm)"

definition fl_asin :: "libm \<Rightarrow> sqlite3_conv \<Rightarrow> callback" where
  "fl_asin lm cv ctx argv = unaryFunction cv ctx argv (c_asin lm)"

definition fl_atan :: "libm \<Rightarrow> sqlite3_conv \<Rightarrow> callback" where
  "fl_atan lm cv ctx argv = unaryFunction cv ctx argv (c_atan lm)"

definition fl_ceil :: "libm \<Rightarrow> sqlite3_conv \<Rightarrow> callback" where
  "fl_ceil lm cv ctx argv = unaryFunction cv ctx argv (c_ceil lm)"

definition fl_cos :: "libm \<Rightarrow> sqlite3_conv \<Rightarrow> callback" where
  "fl_cos lm cv ctx argv = unaryFunction cv ctx argv (c_cos lm)"

definition fl_degrees :: "libm \<Rightarrow> sqlite3_conv \<Rightarrow> callback" where
  "fl_degrees lm cv ctx argv =
     unaryFunction cv ctx argv (\<lambda>rad. fdiv lm (fmul lm rad (Fin 180)) (M_PI lm))"

definition fl_exp :: "libm \<Rightarrow> sqlite3_conv \<Rightarrow> callback" where
  "fl_exp lm cv ctx argv = unaryFunction cv ctx argv (c_exp lm)"

definition fl_floor :: "libm \<Rightarrow> sqlite3_conv \<Rightarrow> callback" where
  "fl_floor lm cv ctx argv = unaryFunction cv ctx argv (c_floor lm)"

definition fl_ln :: "libm \<Rightarrow> sqlite3_conv \<Rightarrow> callback" where
  "fl_ln lm cv ctx argv = unaryFunction cv ctx argv (c_log lm)"

definition fl_log :: "libm \<Rightarrow> sqlite3_conv \<Rightarrow> callback" where
  "fl_log lm cv ctx argv = unaryFunction cv ctx argv (c_log10 lm)"

definition fl_radians :: "libm \<Rightarrow> sqlite3_conv \<Rightarrow> callback" where
  "fl_radians lm cv ctx argv =
     unaryFunction cv ctx argv (\<lambda>deg. fdiv lm (fmul lm deg (M_PI lm)) (Fin 180))"

definition fl_sin :: "libm \<Rightarrow> sqlite3_conv \<Rightarrow> callback" where
  "fl_sin lm cv ctx argv = unaryFunction cv ctx argv (c_sin lm)"

definition fl_sqrt :: "libm \<Rightarrow> sqlite3_conv \<Rightarrow> callback" where
  "fl_sqrt lm cv ctx argv = unaryFunction cv ctx argv (c_sqrt lm)"

definition fl_tan :: "libm \<Rightarrow> sqlite3_conv \<Rightarrow> callback" where
  "fl_tan lm cv ctx argv = unaryFunction cv ctx argv (c_tan lm)"

text \<open>
  \<^verbatim>\<open>isNumeric(ctx, argv[0]) && isNumeric(ctx, argv[1])\<close>: both arguments are read from
  \<^verbatim>\<open>argv\<close> only as far as the test goes, the second only when the first is numeric.
\<close>

definition fl_atan2 :: "libm \<Rightarrow> sqlite3_conv \<Rightarrow> callback" where
  "fl_atan2 lm cv ctx argv =
     (case argv of
        [] \<Rightarrow> Inl OutOfBoundsRead
      | a0 # rest \<Rightarrow>
          (case isNumeric ctx a0 of
             (ctx1, False) \<Rightarrow> Inr ctx1
           | (ctx1, True) \<Rightarrow>
               (case rest of
                  [] \<Rightarrow> Inl OutOfBoundsRead
                | a1 # rest' \<Rightarrow>
                    (case isNumeric ctx1 a1 of
                       (ctx2, False) \<Rightarrow> Inr ctx2
                     | (ctx2, True) \<Rightarrow>
                         Inr (sqlite3_result_double ctx2
                                (c_atan2 lm (sqlite3_value_double cv a0) (sqlite3_value_double cv a1)))))))"

definition fl_power :: "libm \<Rightarrow> sqlite3_conv \<Rightarrow> callback" where
  "fl_power lm cv ctx argv =
     (case argv of
        [] \<Rightarrow> Inl OutOfBoundsRead
      | a0 # rest \<Rightarrow>
          (case isNumeric ctx a0 of
             (ctx1, False) \<Rightarrow> Inr ctx1
           | (ctx1, True) \<Rightarrow>
               (case rest of
                  [] \<Rightarrow> Inl OutOfBoundsRead
                | a1 # rest' \<Rightarrow>
                    (case isNumeric ctx1 a1 of
                       (ctx2, False) \<Rightarrow> Inr ctx2
                     | (ctx2, True) \<Rightarrow>
                         Inr (sqlite3_result_double ctx2
                                (c_pow lm (sqlite3_value_double cv a0) (sqlite3_value_double cv a1)))))))"

definition fl_e :: "libm \<Rightarrow> sqlite3_conv \<Rightarrow> callback" where
  "fl_e lm cv ctx argv = Inr (sqlite3_result_double ctx (M_E lm))"

definition fl_pi :: "libm \<Rightarrow> sqlite3_conv \<Rightarrow> callback" where
  "fl_pi lm cv ctx argv = Inr (sqlite3_result_double ctx (M_PI lm))"

definition roundTo ::
  "libm \<Rightarrow> sqlite3_conv \<Rightarrow> sqlite3_context \<Rightarrow> sqlite3_value list \<Rightarrow> (double \<Rightarrow> double) \<Rightarrow> fault + sqlite3_context" where
  "roundTo lm cv ctx argv fn =
     (case argv of
        [] \<Rightarrow> Inl OutOfBoundsRead
      | a0 # rest \<Rightarrow>
          (case isNumeric ctx a0 of
             (ctx1, False) \<Rightarrow> Inr ctx1
           | (ctx1, True) \<Rightarrow>
               (let result = sqlite3_value_double cv a0 in
                if length argv = 1 then Inr (sqlite3_result_double ctx1 (fn result))
                else
                  (case rest of
                     [] \<Rightarrow> Inl OutOfBoundsRead
                   | a1 # rest' \<Rightarrow>
                       (case isNumeric ctx1 a1 of
                          (ctx2, False) \<Rightarrow> Inr ctx2
                        | (ctx2, True) \<Rightarrow>
                            (let scale = c_pow lm (Fin 10) (sqlite3_value_double cv a1) in
                             Inr (sqlite3_result_double ctx2
                                    (fdiv lm (fn (fmul lm result scale)) scale))))))))"

definition fl_round :: "libm \<Rightarrow> sqlite3_conv \<Rightarrow> callback" where
  "fl_round lm cv ctx argv = roundTo lm cv ctx argv (c_round lm)"

definition fl_trunc :: "libm \<Rightarrow> sqlite3_conv \<Rightarrow> callback" where
  "fl_trunc lm cv ctx argv = roundTo lm cv ctx argv (c_trunc lm)"

definition fl_sign :: "libm \<Rightarrow> sqlite3_conv \<Rightarrow> callback" where
  "fl_sign lm cv ctx argv =
     (case argv of
        [] \<Rightarrow> Inl OutOfBoundsRead
      | a0 # rest \<Rightarrow>
          (case isNumeric ctx a0 of
             (ctx1, False) \<Rightarrow> Inr ctx1
           | (ctx1, True) \<Rightarrow>
               (let num = sqlite3_value_double cv a0 in
                Inr (sqlite3_result_int ctx1
                       (if dlt (Fin 0) num then 1 else if dlt num (Fin 0) then - 1 else 0)))))"

text \<open>
  The math entries of the registration table \<^verbatim>\<open>kN1QLFunctionsSpec\<close>, in its order: name,
  arity, implementation. The host calls an entry with exactly \<open>arity\<close> arguments.
\<close>

definition kN1QLFunctionsSpec_math :: "libm \<Rightarrow> sqlite3_conv \<Rightarrow> (string \<times> int \<times> callback) list" where
  "kN1QLFunctionsSpec_math lm cv =
     [ (''abs'', 1, fl_abs lm cv),
       (''acos'', 1, fl_acos lm cv),
       (''asin'', 1, fl_asin lm cv),
       (''atan'', 1, fl_atan lm cv),
       (''atan2'', 2, fl_atan2 lm cv),
       (''ceil'', 1, fl_ceil lm cv),
       (''cos'', 1, fl_cos lm cv),
       (''degrees'', 1, fl_degrees lm cv),
       (''e'', 0, fl_e lm cv),
       (''exp'', 1, fl_exp lm cv),
       (''ln'', 1, fl_ln lm cv),
       (''log'', 1, fl_log lm cv),
       (''floor'', 1, fl_floor lm cv),
       (''pi'', 0, fl_pi lm cv),
       (''power'', 2, fl_power lm cv),
       (''radians'', 1, fl_radians lm cv),
       (''round'', 1, fl_round lm cv),
       (''round'', 2, fl_round lm cv),
       (''sign'', 1, fl_sign lm cv),
       (''sin'', 1, fl_sin lm cv),
       (''sqrt'', 1, fl_sqrt lm cv),
       (''tan'', 1, fl_tan lm cv),
       (''trunc'', 1, fl_trunc lm cv),
       (''trunc'', 2, fl_trunc lm cv) ]"


section \<open>Type tests and conversions\<close>

text \<open>
  \<^verbatim>\<open>value_type\<close> calls \<^verbatim>\<open>fleeceParam\<close> with the context, so it returns the context with its
  string. The inner \<^verbatim>\<open>switch\<close> covers the seven tags of \<^verbatim>\<open>valueType\<close>.
\<close>

definition value_type ::
  "fleece_api \<Rightarrow> sqlite3_conv \<Rightarrow> sqlite3_context \<Rightarrow> sqlite3_value \<Rightarrow> sqlite3_context \<times> string" where
  "value_type fl cv ctx arg =
     (case sqlite3_value_type arg of
        SQLITE_FLOAT \<Rightarrow> (ctx, ''number'')
      | SQLITE_INTEGER \<Rightarrow> (ctx, ''number'')
      | SQLITE_TEXT \<Rightarrow> (ctx, ''string'')
      | SQLITE_NULL \<Rightarrow> (ctx, ''missing'')
      | SQLITE_BLOB \<Rightarrow>
          if sqlite3_value_bytes cv arg = 0 then (ctx, ''null'')
          else
            (case fleeceParam fl ctx arg of
               (ctx', None) \<Rightarrow> (ctx', ''null'')
             | (ctx', Some fleece) \<Rightarrow>
                 (ctx',
                  case fvalue_type fleece of
                    kArray \<Rightarrow> ''array''
                  | kBoolean \<Rightarrow> ''boolean''
                  | kData \<Rightarrow> ''binary''
                  | kDict \<Rightarrow> ''object''
                  | kNull \<Rightarrow> ''null''
                  | kNumber \<Rightarrow> ''number''
                  | kString \<Rightarrow> ''string'')))"

definition isarray :: "fleece_api \<Rightarrow> sqlite3_conv \<Rightarrow> callback" where
  "isarray fl cv ctx argv =
     (case argv of
        [] \<Rightarrow> Inl OutOfBoundsRead
      | a0 # rest \<Rightarrow>
          (case value_type fl cv ctx a0 of
             (ctx', ty) \<Rightarrow> Inr (sqlite3_result_int ctx' (if ty = ''array'' then 1 else 0))))"

definition isatom :: "fleece_api \<Rightarrow> sqlite3_conv \<Rightarrow> callback" where
  "isatom fl cv ctx argv =
     (case argv of
        [] \<Rightarrow> Inl OutOfBoundsRead
      | a0 # rest \<Rightarrow>
          (case value_type fl cv ctx a0 of
             (ctx', ty) \<Rightarrow>
               Inr (sqlite3_result_int ctx'
                      (if ty = ''boolean'' \<or> ty = ''number'' \<or> ty = ''string'' then 1 else 0))))"

definition isboolean :: "fleece_api \<Rightarrow> sqlite3_conv \<Rightarrow> callback" where
  "isboolean fl cv ctx argv =
     (case argv of
        [] \<Rightarrow> Inl OutOfBoundsRead
      | a0 # rest \<Rightarrow>
          (case value_type fl cv ctx a0 of
             (ctx', ty) \<Rightarrow> Inr (sqlite3_result_int ctx' (if ty = ''boolean'' then 1 else 0))))"

definition isnumber :: "fleece_api \<Rightarrow> sqlite3_conv \<Rightarrow> callback" where
  "isnumber fl cv ctx argv =
     (case argv of
        [] \<Rightarrow> Inl OutOfBoundsRead
      | a0 # rest \<Rightarrow>
          (case value_type fl cv ctx a0 of
             (ctx', ty) \<Rightarrow> Inr (sqlite3_result_int ctx' (if ty = ''number'' then 1 else 0))))"

definition isobject :: "fleece_api \<Rightarrow> sqlite3_conv \<Rightarrow> callback" where
  "isobject fl cv ctx argv =
     (case argv of
        [] \<Rightarrow> Inl OutOfBoundsRead
      | a0 # rest \<Rightarrow>
          (case value_type fl cv ctx a0 of
             (ctx', ty) \<Rightarrow> Inr (sqlite3_result_int ctx' (if ty = ''object'' then 1 else 0))))"

definition isstring :: "fleece_api \<Rightarrow> sqlite3_conv \<Rightarrow> callback" where
  "isstring fl cv ctx argv =
     (case argv of
        [] \<Rightarrow> Inl OutOfBoundsRead
      | a0 # rest \<Rightarrow>
          (case value_type fl cv ctx a0 of
             (ctx', ty) \<Rightarrow> Inr (sqlite3_result_int ctx' (if ty = ''string'' then 1 else 0))))"

definition type_fn :: "fleece_api \<Rightarrow> sqlite3_conv \<Rightarrow> callback" where
  "type_fn fl cv ctx argv =
     (case argv of
        [] \<Rightarrow> Inl OutOfBoundsRead
      | a0 # rest \<Rightarrow>
          (case value_type fl cv ctx a0 of
             (ctx', result) \<Rightarrow> Inr (sqlite3_result_text ctx' result)))"

text \<open>
  \<^verbatim>\<open>std::stod\<close> is a parameter: the double it parses, or the exception it throws.
  \<^verbatim>\<open>tonumber(const string&)\<close> turns either exception into \<^verbatim>\<open>NAN\<close>.
\<close>

datatype stod_exception = invalid_argument | out_of_range

definition tonumber_string :: "(string \<Rightarrow> stod_exception + double) \<Rightarrow> string \<Rightarrow> double" where
  "tonumber_string stod s =
     (case stod s of
        Inr d \<Rightarrow> d
      | Inl invalid_argument \<Rightarrow> NaN
      | Inl out_of_range \<Rightarrow> NaN)"

text \<open>
  The callback \<^verbatim>\<open>tonumber\<close>. For a text argument the string is built from
  \<^verbatim>\<open>sqlite3_value_text\<close> and \<^verbatim>\<open>sqlite3_value_bytes\<close>; the test before the result is the
  comparison \<^verbatim>\<open>result == NAN\<close>.
\<close>

definition tonumber ::
  "(string \<Rightarrow> stod_exception + double) \<Rightarrow> sqlite3_conv \<Rightarrow> callback" where
  "tonumber stod cv ctx argv =
     (case argv of
        [] \<Rightarrow> Inl OutOfBoundsRead
      | a0 # rest \<Rightarrow>
          (case sqlite3_value_type a0 of
             SQLITE_NULL \<Rightarrow> Inr (sqlite3_result_null ctx)
           | SQLITE_FLOAT \<Rightarrow> Inr (sqlite3_result_value ctx a0)
           | SQLITE_INTEGER \<Rightarrow> Inr (sqlite3_result_value ctx a0)
           | SQLITE_TEXT \<Rightarrow>
               (let str = take (sqlite3_value_bytes cv a0) (asString (sqlite3_value_text cv a0));
                    result = tonumber_string stod str
                in if deq result NaN then Inr (sqlite3_result_zeroblob ctx 0)
                   else Inr (sqlite3_result_double ctx result))
           | SQLITE_BLOB \<Rightarrow> Inr (sqlite3_result_zeroblob ctx 0)))"

section \<open>Sample collaborators\<close>

text \<open>
  Modelled from the spec: the document bridge (\<^verbatim>\<open>fleeceParam\<close> and the Fleece codec behind
  it, not under src/). The spec's asDocumentValue "returns a read-only view into the
  document tree or null on decode failure", and a blob that fails to decode "is reported
  as an error". The sample codec knows the documents of the evaluations below, each by
  its text; every other blob fails to decode.
\<close>

definition sample_decode :: "string \<Rightarrow> fvalue option" where
  "sample_decode b =
     (if b = ''[1,2,3]'' then Some (FArray [FNumber (Fin 1), FNumber (Fin 2), FNumber (Fin 3)])
      else if b = ''[5.5]'' then Some (FArray [FNumber (Fin 5.5)])
      else if b = ''[-1]'' then Some (FArray [FNumber (Fin (- 1))])
      else if b = ''[-3,-7]'' then Some (FArray [FNumber (Fin (- 3)), FNumber (Fin (- 7))])
      else if b = ''[2,9,4]'' then Some (FArray [FNumber (Fin 2), FNumber (Fin 9), FNumber (Fin 4)])
      else if b = ''[inf]'' then Some (FArray [FNumber PInf])
      else if b = ''[a,b,c]'' then Some (FArray [FString ''a'', FString ''b'', FString ''c''])
      else if b = ''{k:v}'' then Some (FDict [(''k'', FString ''v'')])
      else None)"

definition sample_fleeceParam :: "sqlite3_context \<Rightarrow> sqlite3_value \<Rightarrow> sqlite3_context \<times> fvalue option" where
  "sample_fleeceParam ctx arg =
     (case arg of
        SQLBlob b \<Rightarrow>
          (case sample_decode b of
             Some v \<Rightarrow> (ctx, Some v)
           | None \<Rightarrow> (sqlite3_result_error ctx ''invalid Fleece data'' (- 1), None))
      | _ \<Rightarrow> (sqlite3_result_error ctx ''invalid Fleece data'' (- 1), None))"

text \<open>The sample \<^verbatim>\<open>toString\<close> is exact on strings, the only values it is applied to below.\<close>

definition sample_toString :: "fvalue \<Rightarrow> string" where
  "sample_toString v = (case v of FString s \<Rightarrow> s | _ \<Rightarrow> [])"

definition sample_fleece :: fleece_api where
  "sample_fleece = \<lparr> fleeceParam = sample_fleeceParam, toString = sample_toString \<rparr>"

text \<open>
  Exact arithmetic stands in for the rounding one: on the sample values (small integers
  and halves) the exact sum is a double, so IEEE addition returns it.
\<close>

fun exact_add :: "double \<Rightarrow> double \<Rightarrow> double" where
  "exact_add (Fin x) (Fin y) = Fin (x + y)"
| "exact_add NaN b = NaN"
| "exact_add a NaN = NaN"
| "exact_add PInf NInf = NaN"
| "exact_add NInf PInf = NaN"
| "exact_add PInf b = PInf"
| "exact_add a PInf = PInf"
| "exact_add NInf b = NInf"
| "exact_add a NInf = NInf"

text \<open>
  A regex engine for patterns that are one literal character, enough for the sample
  calls: the matches of \<^verbatim>\<open>sregex_iterator\<close> are the occurrences of the character, left to
  right, and \<^verbatim>\<open>format\<close> returns a replacement text without \<^verbatim>\<open>$\<close> as it is.
\<close>

fun literal_matches :: "char \<Rightarrow> string \<Rightarrow> string \<Rightarrow> match_results list" where
  "literal_matches c pre [] = []"
| "literal_matches c pre (x # xs) =
     (if x = c then \<lparr> m_prefix = pre, m_str = [c], m_suffix = xs \<rparr> # literal_matches c [] xs
      else literal_matches c (pre @ [x]) xs)"

fun literal_search :: "char \<Rightarrow> string \<Rightarrow> string \<Rightarrow> match_results option" where
  "literal_search c pre [] = None"
| "literal_search c pre (x # xs) =
     (if x = c then Some \<lparr> m_prefix = pre, m_str = [c], m_suffix = xs \<rparr>
      else literal_search c (pre @ [x]) xs)"

definition literal_regex :: regex_lib where
  "literal_regex =
     \<lparr> regex_error = (\<lambda>p. length p \<noteq> 1),
       regex_search = (\<lambda>p s. literal_search (hd p) [] s),
       sregex_iterator = (\<lambda>p s. literal_matches (hd p) [] s),
       match_format = (\<lambda>m repl. repl) \<rparr>"


text \<open>
  The host conversions of the sample calls: a 64-bit integer of magnitude up to 2^53
  widens to the double of the same value. No evaluation below converts text to a number
  or a number to text; those conversions return a fixed value here.
\<close>

definition sample_conv :: sqlite3_conv where
  "sample_conv =
     \<lparr> num_text = (\<lambda>v. []),
       text_int = (\<lambda>s. 0),
       text_double = (\<lambda>s. Fin 0),
       double_int = (\<lambda>d. 0),
       int_double = (\<lambda>i. Fin (of_int i)) \<rparr>"

text \<open>
  \<^verbatim>\<open>std::stod\<close> on four sample strings: no conversion can be performed on \<^verbatim>\<open>abc\<close>, the
  value of \<^verbatim>\<open>1e999\<close> is out of the range of a double. Other strings are not looked up.
\<close>

definition sample_stod :: "string \<Rightarrow> stod_exception + double" where
  "sample_stod s =
     (if s = ''42'' then Inr (Fin 42)
      else if s = ''3.5'' then Inr (Fin 3.5)
      else if s = ''1e999'' then Inl out_of_range
      else Inl invalid_argument)"

text \<open>What the host gets from a call: nothing that can be named when the callback faults.\<close>

definition outcome :: "fault + sqlite3_context \<Rightarrow> host_result option" where
  "outcome r = (case r of Inl f \<Rightarrow> None | Inr ctx \<Rightarrow> Some (host_result ctx))"

text \<open>
  The classification in the words of the specification, rule by rule in its order, over
  the outcome \<open>dec\<close> of decoding the argument (\<open>None\<close>: it does not decode).
\<close>

definition tag_name :: "valueType \<Rightarrow> string" where
  "tag_name t =
     (case t of
        kArray \<Rightarrow> ''array'' | kBoolean \<Rightarrow> ''boolean'' | kData \<Rightarrow> ''binary'' | kDict \<Rightarrow> ''object''
      | kNull \<Rightarrow> ''null'' | kNumber \<Rightarrow> ''number'' | kString \<Rightarrow> ''string'')"

definition classify_spec :: "sqlite3_value \<Rightarrow> fvalue option \<Rightarrow> string" where
  "classify_spec arg dec =
     (if sqlite3_value_type arg = SQLITE_NULL then ''missing''
      else if sqlite3_value_type arg = SQLITE_FLOAT \<or> sqlite3_value_type arg = SQLITE_INTEGER
        then ''number''
      else if sqlite3_value_type arg = SQLITE_TEXT then ''string''
      else if arg = SQLBlob [] then ''null''
      else (case dec of None \<Rightarrow> ''null'' | Some v \<Rightarrow> tag_name (fvalue_type v)))"


section \<open>Properties\<close>

subsection \<open>Reading a context\<close>

lemma has_error_snoc: "has_error (ctx @ [w]) = (has_error ctx \<or> is_error w)"
  by (auto simp: has_error_def)

lemma host_result_snoc:
  "host_result (ctx @ [w]) =
     (if has_error ctx \<or> is_error w then HostFails SQLITE_ERROR w else HostValue w)"
  by (simp add: host_result_def has_error_snoc)

lemma has_error_Nil: "\<not> has_error []"
  by (simp add: has_error_def)

subsection \<open>Trimming a string made of set characters only\<close>

lemma first_not_of_from_None: "set s \<subseteq> set cs \<Longrightarrow> first_not_of_from i s cs = None"
  by (induction s arbitrary: i) auto

lemma find_first_not_of_None: "set s \<subseteq> set cs \<Longrightarrow> find_first_not_of s cs = None"
  by (simp add: find_first_not_of_def first_not_of_from_None)

lemma find_last_not_of_None: "set s \<subseteq> set cs \<Longrightarrow> find_last_not_of s cs = None"
  by (simp add: find_last_not_of_def find_first_not_of_None)

text \<open>
  C10. For every non-empty string \<open>s\<close> and non-empty character set \<open>c\<close> (a C string) such
  that every byte of \<open>s\<close> is in \<open>c\<close>, \<^verbatim>\<open>ltrim(s, c)\<close> and \<^verbatim>\<open>rtrim(s, c)\<close> leave \<open>s\<close> as it is,
  not empty: \<^verbatim>\<open>find_first_not_of\<close> and \<^verbatim>\<open>find_last_not_of\<close> return \<^verbatim>\<open>npos\<close> and the string is
  not modified.
\<close>

theorem trim_all_in_set_unchanged:
  assumes "s \<noteq> []" and "c \<noteq> []" and "set s \<subseteq> set (c_str c)"
  shows "ltrim s (Some c) = s \<and> rtrim s (Some c) = s \<and>
         ltrim s (Some c) \<noteq> [] \<and> rtrim s (Some c) \<noteq> [] \<and>
         ltrim_fn cv ctx [SQLText s, SQLText c] = Inr (sqlite3_result_text ctx s) \<and>
         rtrim_fn cv ctx [SQLText s, SQLText c] = Inr (sqlite3_result_text ctx s)"
  using assms
  by (simp add: ltrim_def rtrim_def find_first_not_of_None find_last_not_of_None
      ltrim_fn_def rtrim_fn_def valueAsStringSlice_def asString_def)

theorem trim_all_in_set_unchanged_witness:
  "\<forall>cv ctx.
     ltrim ''abba'' (Some ''ab'') = ''abba'' \<and> rtrim ''abba'' (Some ''ab'') = ''abba'' \<and>
     ltrim ''abba'' (Some ''ab'') \<noteq> [] \<and> rtrim ''abba'' (Some ''ab'') \<noteq> [] \<and>
     ltrim_fn cv ctx [SQLText ''abba'', SQLText ''ab''] = Inr (sqlite3_result_text ctx ''abba'') \<and>
     rtrim_fn cv ctx [SQLText ''abba'', SQLText ''ab''] = Inr (sqlite3_result_text ctx ''abba'')"
proof (intro allI)
  fix cv ctx
  show "ltrim ''abba'' (Some ''ab'') = ''abba'' \<and> rtrim ''abba'' (Some ''ab'') = ''abba'' \<and>
     ltrim ''abba'' (Some ''ab'') \<noteq> [] \<and> rtrim ''abba'' (Some ''ab'') \<noteq> [] \<and>
     ltrim_fn cv ctx [SQLText ''abba'', SQLText ''ab''] = Inr (sqlite3_result_text ctx ''abba'') \<and>
     rtrim_fn cv ctx [SQLText ''abba'', SQLText ''ab''] = Inr (sqlite3_result_text ctx ''abba'')"
    by (rule trim_all_in_set_unchanged) (simp_all add: c_str_def)
qed

text \<open>Where the set does not cover the string, the ends are cut as usual.\<close>

lemma trim_examples:
  "ltrim ''xxabxx'' (Some ''x'') = ''abxx''"
  "rtrim ''xxabxx'' (Some ''x'') = ''xxab''"
  "ltrim ''  ab  '' None = ''ab  ''"
  "rtrim ''  ab  '' None = ''  ab''"
  by (simp_all add: ltrim_def rtrim_def find_first_not_of_def find_last_not_of_def c_str_def
      isspace_def)

subsection \<open>The type classifier\<close>

lemma value_type_classify:
  "snd (value_type fl cv ctx arg) = classify_spec arg (snd (fleeceParam fl ctx arg))"
  by (cases arg; cases "fleeceParam fl ctx arg"; cases "snd (fleeceParam fl ctx arg)")
     (auto simp: value_type_def classify_spec_def tag_name_def split: valueType.splits)

lemma value_type_total:
  "snd (value_type fl cv ctx arg) \<in>
     {''missing'', ''null'', ''boolean'', ''number'', ''string'', ''binary'', ''array'', ''object''}"
  by (cases arg; cases "fleeceParam fl ctx arg"; cases "snd (fleeceParam fl ctx arg)")
     (auto simp: value_type_def split: valueType.splits)

text \<open>
  C3. \<^verbatim>\<open>value_type\<close> classifies every host value by the rules of the specification, in
  their order: host NULL is "missing"; float or integer is "number"; text is "string"; a
  zero-byte binary is "null"; a non-empty binary that does not decode is "null"; any other
  binary has the tag of the decoded document. The result is always one of the eight tag
  names, and it is what \<^verbatim>\<open>type\<close> writes as text and what \<^verbatim>\<open>isarray\<close>, \<^verbatim>\<open>isatom\<close>,
  \<^verbatim>\<open>isboolean\<close>, \<^verbatim>\<open>isnumber\<close>, \<^verbatim>\<open>isobject\<close> and \<^verbatim>\<open>isstring\<close> test.
\<close>

theorem value_type_classification:
  "snd (value_type fl cv ctx arg) = classify_spec arg (snd (fleeceParam fl ctx arg)) \<and>
   snd (value_type fl cv ctx arg) \<in>
     {''missing'', ''null'', ''boolean'', ''number'', ''string'', ''binary'', ''array'', ''object''} \<and>
   type_fn fl cv ctx [arg] =
     Inr (sqlite3_result_text (fst (value_type fl cv ctx arg)) (snd (value_type fl cv ctx arg))) \<and>
   isarray fl cv ctx [arg] =
     Inr (sqlite3_result_int (fst (value_type fl cv ctx arg))
            (if snd (value_type fl cv ctx arg) = ''array'' then 1 else 0)) \<and>
   isatom fl cv ctx [arg] =
     Inr (sqlite3_result_int (fst (value_type fl cv ctx arg))
            (if snd (value_type fl cv ctx arg) = ''boolean'' \<or>
                snd (value_type fl cv ctx arg) = ''number'' \<or>
                snd (value_type fl cv ctx arg) = ''string'' then 1 else 0)) \<and>
   isboolean fl cv ctx [arg] =
     Inr (sqlite3_result_int (fst (value_type fl cv ctx arg))
            (if snd (value_type fl cv ctx arg) = ''boolean'' then 1 else 0)) \<and>
   isnumber fl cv ctx [arg] =
     Inr (sqlite3_result_int (fst (value_type fl cv ctx arg))
            (if snd (value_type fl cv ctx arg) = ''number'' then 1 else 0)) \<and>
   isobject fl cv ctx [arg] =
     Inr (sqlite3_result_int (fst (value_type fl cv ctx arg))
            (if snd (value_type fl cv ctx arg) = ''object'' then 1 else 0)) \<and>
   isstring fl cv ctx [arg] =
     Inr (sqlite3_result_int (fst (value_type fl cv ctx arg))
            (if snd (value_type fl cv ctx arg) = ''string'' then 1 else 0))"
proof -
  have t: "type_fn fl cv ctx [arg] =
     Inr (sqlite3_result_text (fst (value_type fl cv ctx arg)) (snd (value_type fl cv ctx arg)))"
    by (simp add: type_fn_def split: prod.splits)
  have a: "isarray fl cv ctx [arg] =
     Inr (sqlite3_result_int (fst (value_type fl cv ctx arg))
            (if snd (value_type fl cv ctx arg) = ''array'' then 1 else 0))"
    by (simp add: isarray_def split: prod.splits)
  have b: "isatom fl cv ctx [arg] =
     Inr (sqlite3_result_int (fst (value_type fl cv ctx arg))
            (if snd (value_type fl cv ctx arg) = ''boolean'' \<or>
                snd (value_type fl cv ctx arg) = ''number'' \<or>
                snd (value_type fl cv ctx arg) = ''string'' then 1 else 0))"
    by (simp add: isatom_def split: prod.splits)
  have c: "isboolean fl cv ctx [arg] =
     Inr (sqlite3_result_int (fst (value_type fl cv ctx arg))
            (if snd (value_type fl cv ctx arg) = ''boolean'' then 1 else 0))"
    by (simp add: isboolean_def split: prod.splits)
  have d: "isnumber fl cv ctx [arg] =
     Inr (sqlite3_result_int (fst (value_type fl cv ctx arg))
            (if snd (value_type fl cv ctx arg) = ''number'' then 1 else 0))"
    by (simp add: isnumber_def split: prod.splits)
  have e: "isobject fl cv ctx [arg] =
     Inr (sqlite3_result_int (fst (value_type fl cv ctx arg))
            (if snd (value_type fl cv ctx arg) = ''object'' then 1 else 0))"
    by (simp add: isobject_def split: prod.splits)
  have f: "isstring fl cv ctx [arg] =
     Inr (sqlite3_result_int (fst (value_type fl cv ctx arg))
            (if snd (value_type fl cv ctx arg) = ''string'' then 1 else 0))"
    by (simp add: isstring_def split: prod.splits)
  from value_type_classify value_type_total t a b c d e f show ?thesis
    by blast
qed

lemmas result_defs = sqlite3_result_null_def sqlite3_result_int_def sqlite3_result_int64_def
  sqlite3_result_double_def sqlite3_result_text_def sqlite3_result_zeroblob_def
  sqlite3_result_value_def sqlite3_result_error_def setResultBlobFromSlice_def
  setResultFromValue_def

lemmas sample_defs = sample_fleece_def sample_fleeceParam_def sample_decode_def
  sample_toString_def sample_conv_def

lemma value_type_examples:
  "type_fn sample_fleece sample_conv [] [SQLBlob ''{k:v}''] = Inr [ResultText ''object'']"
  "type_fn sample_fleece sample_conv [] [SQLBlob []] = Inr [ResultText ''null'']"
  "type_fn sample_fleece sample_conv [] [SQLNull] = Inr [ResultText ''missing'']"
  "isarray sample_fleece sample_conv [] [SQLBlob ''[1,2,3]''] = Inr [ResultInt 1]"
  by (simp_all add: type_fn_def isarray_def value_type_def result_defs sample_defs)


subsection \<open>Math functions on a non-numeric argument\<close>

lemma isNumeric_other:
  "sqlite3_value_type a \<noteq> SQLITE_INTEGER \<Longrightarrow> sqlite3_value_type a \<noteq> SQLITE_FLOAT \<Longrightarrow>
   isNumeric ctx a = (sqlite3_result_error ctx ''Invalid numeric value'' SQLITE_MISMATCH, False)"
  by (auto simp: isNumeric_def)

lemma isNumeric_cases:
  "isNumeric ctx a = (ctx, True) \<or>
   isNumeric ctx a = (sqlite3_result_error ctx ''Invalid numeric value'' SQLITE_MISMATCH, False)"
  by (auto simp: isNumeric_def Let_def)

lemma unaryFunction_other:
  "sqlite3_value_type a \<noteq> SQLITE_INTEGER \<Longrightarrow> sqlite3_value_type a \<noteq> SQLITE_FLOAT \<Longrightarrow>
   unaryFunction cv ctx [a] fn =
     Inr (sqlite3_result_error ctx ''Invalid numeric value'' SQLITE_MISMATCH)"
  by (simp add: unaryFunction_def isNumeric_other)

lemma single_other:
  assumes "sqlite3_value_type a \<noteq> SQLITE_INTEGER" and "sqlite3_value_type a \<noteq> SQLITE_FLOAT"
  shows "roundTo lm cv ctx [a] fn =
           Inr (sqlite3_result_error ctx ''Invalid numeric value'' SQLITE_MISMATCH)"
    and "fl_sign lm cv ctx [a] =
           Inr (sqlite3_result_error ctx ''Invalid numeric value'' SQLITE_MISMATCH)"
  using assms by (auto simp: fl_sign_def roundTo_def isNumeric_other)

lemma binary_other:
  assumes "(sqlite3_value_type a \<noteq> SQLITE_INTEGER \<and> sqlite3_value_type a \<noteq> SQLITE_FLOAT) \<or>
           (sqlite3_value_type b \<noteq> SQLITE_INTEGER \<and> sqlite3_value_type b \<noteq> SQLITE_FLOAT)"
  shows "fl_atan2 lm cv ctx [a, b] =
           Inr (sqlite3_result_error ctx ''Invalid numeric value'' SQLITE_MISMATCH)"
    and "fl_power lm cv ctx [a, b] =
           Inr (sqlite3_result_error ctx ''Invalid numeric value'' SQLITE_MISMATCH)"
    and "roundTo lm cv ctx [a, b] fn =
           Inr (sqlite3_result_error ctx ''Invalid numeric value'' SQLITE_MISMATCH)"
  using assms isNumeric_cases [of ctx a]
  by (auto simp: fl_atan2_def fl_power_def roundTo_def isNumeric_other isNumeric_def Let_def)

lemma argv_of_length_1: "int (length argv) = 1 \<Longrightarrow> \<exists>a. argv = [a]"
  by (cases argv) auto

lemma argv_of_length_2: "int (length argv) = 2 \<Longrightarrow> \<exists>a b. argv = [a, b]"
  by (cases argv; cases "tl argv") auto

lemma math_non_numeric_call:
  assumes entry: "(name, arity, fn) \<in> set (kN1QLFunctionsSpec_math lm cv)"
    and argc: "int (length argv) = arity"
    and arg: "a \<in> set argv"
    and ty: "sqlite3_value_type a \<noteq> SQLITE_INTEGER" "sqlite3_value_type a \<noteq> SQLITE_FLOAT"
  shows "fn ctx argv = Inr (sqlite3_result_error ctx ''Invalid numeric value'' SQLITE_MISMATCH)"
proof -
  consider (zero) "arity = 0" | (one) "arity = 1" | (two) "arity = 2"
    using entry by (auto simp: kN1QLFunctionsSpec_math_def)
  then show ?thesis
  proof cases
    case zero
    with argc arg show ?thesis by simp
  next
    case one
    with argc arg have argv: "argv = [a]"
      using argv_of_length_1 [of argv] by auto
    from entry one show ?thesis
      unfolding argv kN1QLFunctionsSpec_math_def
      using unaryFunction_other [OF ty] single_other [OF ty]
      by (auto simp: fl_abs_def fl_acos_def fl_asin_def fl_atan_def fl_ceil_def fl_cos_def
          fl_degrees_def fl_exp_def fl_floor_def fl_ln_def fl_log_def fl_radians_def fl_sin_def
          fl_sqrt_def fl_tan_def fl_round_def fl_trunc_def)
  next
    case two
    with argc obtain x y where argv: "argv = [x, y]"
      using argv_of_length_2 [of argv] by auto
    with arg ty have
      "(sqlite3_value_type x \<noteq> SQLITE_INTEGER \<and> sqlite3_value_type x \<noteq> SQLITE_FLOAT) \<or>
       (sqlite3_value_type y \<noteq> SQLITE_INTEGER \<and> sqlite3_value_type y \<noteq> SQLITE_FLOAT)"
      by auto
    from binary_other [OF this] entry two show ?thesis
      unfolding argv kN1QLFunctionsSpec_math_def
      by (auto simp: fl_round_def fl_trunc_def)
  qed
qed

lemma invalid_numeric_value_stored:
  "sqlite3_result_error ctx ''Invalid numeric value'' SQLITE_MISMATCH =
     ctx @ [ResultError ''Invalid numeric valu'']"
  by (simp add: sqlite3_result_error_def SQLITE_MISMATCH_def)

text \<open>
  C2. The claim: every math function of the catalogue (abs, acos, asin, atan, ceil, cos,
  degrees, exp, floor, ln, log, radians, sin, sqrt, tan, atan2, power, round, trunc,
  sign), given an argument that is neither an integer nor a float, raises the error
  "Invalid numeric value" with the code \<^verbatim>\<open>SQLITE_MISMATCH\<close> and sets no result. The code:
  every entry, called with as many arguments as it is registered for, makes the one call
  \<^verbatim>\<open>sqlite3_result_error(ctx, "Invalid numeric value", SQLITE_MISMATCH)\<close> and nothing else; but
  the third parameter of that setter is the length of the message, so the host cuts the
  21-byte message to its first 20 bytes, and the error code is the one the setter always
  gives, \<^verbatim>\<open>SQLITE_ERROR\<close>. The statement fails with code 1 and the message
  "Invalid numeric valu", not with the mismatch code 20.
\<close>

theorem math_non_numeric_argument:
  assumes entry: "(name, arity, fn) \<in> set (kN1QLFunctionsSpec_math lm cv)"
    and argc: "int (length argv) = arity"
    and arg: "a \<in> set argv"
    and ty: "sqlite3_value_type a \<noteq> SQLITE_INTEGER" "sqlite3_value_type a \<noteq> SQLITE_FLOAT"
  shows "fn ctx argv = Inr (ctx @ [ResultError ''Invalid numeric valu'']) \<and>
         outcome (fn [] argv) =
           Some (HostFails SQLITE_ERROR (ResultError ''Invalid numeric valu'')) \<and>
         SQLITE_ERROR \<noteq> SQLITE_MISMATCH"
proof -
  have call: "fn c argv = Inr (c @ [ResultError ''Invalid numeric valu''])" for c
    using math_non_numeric_call [OF entry argc arg ty, of c]
    by (simp add: invalid_numeric_value_stored)
  have "outcome (fn [] argv) =
          Some (HostFails SQLITE_ERROR (ResultError ''Invalid numeric valu''))"
    using call [of "[]"] host_result_snoc [of "[]" "ResultError ''Invalid numeric valu''"]
    by (simp add: outcome_def)
  moreover have "SQLITE_ERROR \<noteq> SQLITE_MISMATCH"
    by (simp add: SQLITE_ERROR_def SQLITE_MISMATCH_def)
  ultimately show ?thesis
    using call [of ctx] by simp
qed

theorem math_non_numeric_argument_witness:
  "\<forall>lm. fl_abs lm sample_conv [] [SQLText ''x''] = Inr ([] @ [ResultError ''Invalid numeric valu'']) \<and>
        outcome (fl_abs lm sample_conv [] [SQLText ''x'']) =
          Some (HostFails SQLITE_ERROR (ResultError ''Invalid numeric valu'')) \<and>
        SQLITE_ERROR \<noteq> SQLITE_MISMATCH"
proof
  fix lm
  show "fl_abs lm sample_conv [] [SQLText ''x''] = Inr ([] @ [ResultError ''Invalid numeric valu'']) \<and>
        outcome (fl_abs lm sample_conv [] [SQLText ''x'']) =
          Some (HostFails SQLITE_ERROR (ResultError ''Invalid numeric valu'')) \<and>
        SQLITE_ERROR \<noteq> SQLITE_MISMATCH"
    by (rule math_non_numeric_argument [where name = "''abs''" and arity = 1 and lm = lm
          and cv = sample_conv and a = "SQLText ''x''"])
       (simp_all add: kN1QLFunctionsSpec_math_def)
qed

lemma math_examples:
  "fl_abs lm cv [] [SQLNull] = Inr [ResultError ''Invalid numeric valu'']"
  "fl_atan2 lm cv [] [SQLInteger 1, SQLBlob []] = Inr [ResultError ''Invalid numeric valu'']"
  "fl_round lm cv [] [SQLFloat (Fin 2.5), SQLText ''x''] = Inr [ResultError ''Invalid numeric valu'']"
  "fl_sign lm cv [] [SQLFloat (Fin (- 2))] = Inr [ResultInt (- 1)]"
  "outcome (fl_sign lm cv [] [SQLFloat (Fin (- 2))]) = Some (HostValue (ResultInt (- 1)))"
  by (simp_all add: fl_abs_def unaryFunction_def fl_atan2_def fl_sign_def fl_round_def
      roundTo_def isNumeric_def result_defs SQLITE_MISMATCH_def outcome_def host_result_def
      has_error_def)

subsection \<open>Regular expressions: position and test agree\<close>

text \<open>
  C8. For every subject \<open>s\<close> and every pattern \<open>p\<close> that the regex constructor accepts,
  \<^verbatim>\<open>regexp_position(s, p)\<close> is at least 0 exactly when \<^verbatim>\<open>regexp_like(s, p)\<close> is 1: without a
  match \<^verbatim>\<open>regexp_position\<close> returns -1 and \<^verbatim>\<open>regexp_like\<close> 0; with a match
  \<^verbatim>\<open>regexp_position\<close> returns the length of the prefix before the first match.
\<close>

theorem regexp_position_iff_like:
  assumes "valueAsStringSlice cv a0 = Some s" and "valueAsStringSlice cv a1 = Some p"
    and "\<not> regex_error rx (c_str p)"
  shows "regexp_like rx cv ctx (a0 # a1 # rest) =
           Inr (sqlite3_result_int ctx
                  (case regex_search rx (c_str p) (c_str s) of Some m \<Rightarrow> 1 | None \<Rightarrow> 0)) \<and>
         regexp_position rx cv ctx (a0 # a1 # rest) =
           Inr (sqlite3_result_int64 ctx
                  (case regex_search rx (c_str p) (c_str s) of
                     None \<Rightarrow> - 1 | Some m \<Rightarrow> int (length (m_prefix m)))) \<and>
         ((0 \<le> (case regex_search rx (c_str p) (c_str s) of
                     None \<Rightarrow> - 1 | Some m \<Rightarrow> int (length (m_prefix m)))) =
          ((case regex_search rx (c_str p) (c_str s) of Some m \<Rightarrow> 1 | None \<Rightarrow> 0) = (1::int)))"
  using assms by (simp add: regexp_like_def regexp_position_def split: option.splits)

theorem regexp_position_iff_like_witness:
  "regexp_like literal_regex sample_conv [] [SQLText ''abXc'', SQLText ''X''] =
     Inr (sqlite3_result_int []
            (case regex_search literal_regex (c_str ''X'') (c_str ''abXc'') of
               Some m \<Rightarrow> 1 | None \<Rightarrow> 0)) \<and>
   regexp_position literal_regex sample_conv [] [SQLText ''abXc'', SQLText ''X''] =
     Inr (sqlite3_result_int64 []
            (case regex_search literal_regex (c_str ''X'') (c_str ''abXc'') of
               None \<Rightarrow> - 1 | Some m \<Rightarrow> int (length (m_prefix m)))) \<and>
   ((0 \<le> (case regex_search literal_regex (c_str ''X'') (c_str ''abXc'') of
               None \<Rightarrow> - 1 | Some m \<Rightarrow> int (length (m_prefix m)))) =
    ((case regex_search literal_regex (c_str ''X'') (c_str ''abXc'') of
        Some m \<Rightarrow> 1 | None \<Rightarrow> 0) = (1::int)))"
  by (rule regexp_position_iff_like)
     (simp_all add: valueAsStringSlice_def literal_regex_def c_str_def)

lemma regexp_position_examples:
  "regexp_position literal_regex sample_conv [] [SQLText ''abXc'', SQLText ''X''] = Inr [ResultInt64 2]"
  "regexp_like literal_regex sample_conv [] [SQLText ''abXc'', SQLText ''X''] = Inr [ResultInt 1]"
  "regexp_position literal_regex sample_conv [] [SQLText ''abc'', SQLText ''X''] = Inr [ResultInt64 (- 1)]"
  "regexp_like literal_regex sample_conv [] [SQLText ''abc'', SQLText ''X''] = Inr [ResultInt 0]"
  by (simp_all add: regexp_position_def regexp_like_def valueAsStringSlice_def literal_regex_def
      c_str_def result_defs)


subsection \<open>array_contains always ends with its integer\<close>

lemma aggregateArrayOperation_has_error:
  assumes "\<And>c a. has_error (fst (fleeceParam fl c a)) = has_error c"
  shows "has_error (fst (aggregateArrayOperation fl ctx argv op s)) = has_error ctx"
proof (induction argv arbitrary: ctx s)
  case Nil
  then show ?case by simp
next
  case (Cons arg argv)
  show ?case
  proof (cases "fleeceParam fl ctx arg")
    case (Pair ctx' r)
    with assms [of ctx arg] have e: "has_error ctx' = has_error ctx" by simp
    show ?thesis
      using Pair e Cons.IH
      by (auto simp: has_error_snoc sqlite3_result_null_def sqlite3_result_zeroblob_def
          split: sqlite_type.splits option.splits prod.splits)
  qed
qed

text \<open>
  C9, as amended. For every argument list with at least two arguments (the needle is
  \<^verbatim>\<open>argv[1]\<close>), \<^verbatim>\<open>array_contains\<close> returns, and its last setter call is
  \<^verbatim>\<open>sqlite3_result_int\<close> with 0 or 1: whatever the value fold stored before it stopped
  (host NULL for a host NULL argument, a zero-byte binary for a document that is not an
  array or for a scalar such as the needle itself) is overwritten. The host receives that
  integer, never null or missing, unless an error was reported to the context before (as
  \<^verbatim>\<open>fleeceParam\<close> may on a decode failure): the integer does not clear the error, and the
  statement fails.
\<close>

theorem array_contains_sets_int:
  assumes "2 \<le> length argv"
  shows "\<exists>log b. (b = 0 \<or> b = 1) \<and>
           fl_array_contains fl cv ctx argv = Inr (log @ [ResultInt b]) \<and>
           outcome (fl_array_contains fl cv ctx argv) =
             Some (if has_error log then HostFails SQLITE_ERROR (ResultInt b)
                   else HostValue (ResultInt b))"
proof -
  from assms obtain a0 a1 rest where argv: "argv = a0 # a1 # rest"
    by (cases argv; cases "tl argv") auto
  obtain log found where fold:
    "aggregateArrayOperation fl ctx (a0 # a1 # rest)
       (\<lambda>val found.
          if slice_compare (Some (toString fl val)) (valueAsStringSlice cv a1) = 0
          then (True, True) else (found, False))
       False = (log, found)"
    by (cases "aggregateArrayOperation fl ctx (a0 # a1 # rest)
       (\<lambda>val found.
          if slice_compare (Some (toString fl val)) (valueAsStringSlice cv a1) = 0
          then (True, True) else (found, False))
       False") blast
  have r: "fl_array_contains fl cv ctx argv = Inr (log @ [ResultInt (if found then 1 else 0)])"
    unfolding argv using fold
    by (simp add: fl_array_contains_def sqlite3_result_int_def Let_def
        del: aggregateArrayOperation.simps)
  have "outcome (fl_array_contains fl cv ctx argv) =
          Some (if has_error log then HostFails SQLITE_ERROR (ResultInt (if found then 1 else 0))
                else HostValue (ResultInt (if found then 1 else 0)))"
    by (simp add: r outcome_def host_result_snoc)
  with r show ?thesis
    by (intro exI [of _ log] exI [of _ "if found then 1 else 0"]) simp
qed

theorem array_contains_sets_int_witness:
  "\<exists>log b. (b = 0 \<or> b = 1) \<and>
     fl_array_contains sample_fleece sample_conv [] [SQLNull, SQLText ''b''] =
       Inr (log @ [ResultInt b]) \<and>
     outcome (fl_array_contains sample_fleece sample_conv [] [SQLNull, SQLText ''b'']) =
       Some (if has_error log then HostFails SQLITE_ERROR (ResultInt b)
             else HostValue (ResultInt b))"
  by (rule array_contains_sets_int) simp

text \<open>
  The claim as stated, for every argument list and also on a decode failure, fails twice.
  On a list shorter than two the callback reads \<^verbatim>\<open>argv[1]\<close> first, beyond the \<^verbatim>\<open>argc\<close>
  arguments it was given, and the registration (arity -1) lets the host call it so. On a
  blob that does not decode, the error that \<^verbatim>\<open>fleeceParam\<close> reports stays pending under the
  integer, and the host gets the failure, not 0 or 1.
\<close>

theorem array_contains_short_argv_counterexample:
  "fl_array_contains sample_fleece sample_conv [] [] = Inl OutOfBoundsRead \<and>
   outcome (fl_array_contains sample_fleece sample_conv [] []) = None \<and>
   fl_array_contains sample_fleece sample_conv [] [SQLBlob ''[a,b,c]''] = Inl OutOfBoundsRead \<and>
   outcome (fl_array_contains sample_fleece sample_conv [] [SQLBlob ''[a,b,c]'']) = None \<and>
   fl_array_contains sample_fleece sample_conv [] [SQLBlob ''zz'', SQLText ''b''] =
     Inr [ResultError ''invalid Fleece data'', ResultInt 0] \<and>
   outcome (fl_array_contains sample_fleece sample_conv [] [SQLBlob ''zz'', SQLText ''b'']) =
     Some (HostFails SQLITE_ERROR (ResultInt 0))"
  by (simp add: fl_array_contains_def outcome_def host_result_def has_error_def result_defs
      sample_defs valueAsStringSlice_def c_str_def)

text \<open>
  When nothing reports an error during the call, the host does receive the integer.
\<close>

lemma array_contains_without_error:
  assumes "2 \<le> length argv" and "\<not> has_error ctx"
    and "\<And>c a. has_error (fst (fleeceParam fl c a)) = has_error c"
  shows "outcome (fl_array_contains fl cv ctx argv) = Some (HostValue (ResultInt 0)) \<or>
         outcome (fl_array_contains fl cv ctx argv) = Some (HostValue (ResultInt 1))"
proof -
  from assms(1) obtain a0 a1 rest where argv: "argv = a0 # a1 # rest"
    by (cases argv; cases "tl argv") auto
  define op where "op = (\<lambda>val found.
          if slice_compare (Some (toString fl val)) (valueAsStringSlice cv a1) = 0
          then (True, True) else (found, False))"
  obtain log found where fold: "aggregateArrayOperation fl ctx (a0 # a1 # rest) op False = (log, found)"
    by (cases "aggregateArrayOperation fl ctx (a0 # a1 # rest) op False") blast
  from aggregateArrayOperation_has_error [of fl ctx "a0 # a1 # rest" op False, OF assms(3)] fold assms(2)
  have "\<not> has_error log" by simp
  moreover have "fl_array_contains fl cv ctx argv = Inr (log @ [ResultInt (if found then 1 else 0)])"
    unfolding argv using fold
    by (simp add: fl_array_contains_def sqlite3_result_int_def Let_def op_def
        del: aggregateArrayOperation.simps)
  ultimately show ?thesis
    by (simp add: outcome_def host_result_snoc)
qed

text \<open>The overwrite at work: the fold's null stays in the log, under the integer.\<close>

lemma array_contains_examples:
  "fl_array_contains sample_fleece sample_conv [] [SQLBlob ''[a,b,c]'', SQLText ''b''] =
     Inr [ResultInt 1]"
  "fl_array_contains sample_fleece sample_conv [] [SQLNull, SQLText ''b''] =
     Inr [ResultNull, ResultInt 0]"
  "fl_array_contains sample_fleece sample_conv [] [SQLBlob ''{k:v}'', SQLText ''b''] =
     Inr [ResultZeroblob 0, ResultInt 0]"
  "fl_array_contains sample_fleece sample_conv [] [SQLBlob ''[a,b,c]'', SQLText ''z''] =
     Inr [ResultZeroblob 0, ResultInt 0]"
  by (simp_all add: fl_array_contains_def result_defs sample_defs valueAsStringSlice_def
      slice_compare_def asString_def)

subsection \<open>The numeric fold and array_sum\<close>

text \<open>
  C1. The claim: every number-tagged argument (host integer or float) contributes its
  double once to the numeric fold, so that
  \<^verbatim>\<open>array_sum(doc([1,2,3]), 4, doc([5.5]))\<close> is 15.5. The code: the \<^verbatim>\<open>switch\<close> of
  \<^verbatim>\<open>aggregateNumericArrayOperation\<close> has the cases \<^verbatim>\<open>SQLITE_BLOB\<close> and \<^verbatim>\<open>SQLITE_NULL\<close> only; an
  integer or float argument falls to \<^verbatim>\<open>default\<close>, which writes a zero-byte binary and
  returns from the fold without feeding anything. On the example the fold stops
  at the 4 and \<^verbatim>\<open>fl_array_sum\<close> writes the sum so far, 6.
\<close>

theorem array_sum_stops_at_number:
  "fl_array_sum exact_add sample_fleece []
     [SQLBlob ''[1,2,3]'', SQLFloat (Fin 4), SQLBlob ''[5.5]''] =
     [ResultZeroblob 0, ResultDouble (Fin 6)] \<and>
   aggregateNumericArrayOperation fl ctx (SQLFloat d # argv) op s =
     (sqlite3_result_zeroblob ctx 0, s) \<and>
   aggregateNumericArrayOperation fl ctx (SQLInteger i # argv) op s =
     (sqlite3_result_zeroblob ctx 0, s)"
  by (simp add: fl_array_sum_def result_defs sample_defs)

lemma array_sum_examples:
  "fl_array_sum exact_add sample_fleece [] [SQLBlob ''[1,2,3]'', SQLBlob ''[5.5]''] =
     [ResultDouble (Fin 11.5)]"
  "fl_array_sum exact_add sample_fleece [] [] = [ResultDouble (Fin 0)]"
  by (simp_all add: fl_array_sum_def result_defs sample_defs)

subsection \<open>array_max and array_min\<close>

lemma numeric_limits_min_positive:
  assumes "r < 0"
  shows "dlt (Fin r) numeric_limits_min"
proof -
  have "(0::real) < 1 / 2 ^ 1022" by simp
  with assms show ?thesis by (simp add: numeric_limits_min_def)
qed

lemma each_double_max_negative:
  assumes "\<forall>x \<in> set xs. \<exists>r. x = FNumber (Fin r) \<and> r < 0"
  shows "each_double (\<lambda>num (mx, nonEmpty). ((std_max num mx, True), False)) xs
           (numeric_limits_min, b) = ((numeric_limits_min, b \<or> xs \<noteq> []), False)"
  using assms
proof (induction xs arbitrary: b)
  case Nil
  then show ?case by simp
next
  case (Cons x xs)
  then obtain r where x: "x = FNumber (Fin r)" and r: "r < 0" by auto
  from Cons have "\<forall>x \<in> set xs. \<exists>r. x = FNumber (Fin r) \<and> r < 0" by simp
  from Cons.IH [OF this, of True] show ?case
    by (simp add: x std_max_def numeric_limits_min_positive [OF r])
qed

text \<open>
  Every non-empty array of negative numbers has the seed as its \<^verbatim>\<open>array_max\<close>.
\<close>

lemma array_max_all_negative:
  assumes "fleeceParam fl ctx (SQLBlob b) = (ctx, Some (FArray xs))" and "xs \<noteq> []"
    and "\<forall>x \<in> set xs. \<exists>r. x = FNumber (Fin r) \<and> r < 0"
  shows "fl_array_max fl ctx [SQLBlob b] = sqlite3_result_double ctx numeric_limits_min"
  using assms(1,2) each_double_max_negative [OF assms(3), of False]
  by (simp add: fl_array_max_def)

text \<open>
  C7. The claim: \<^verbatim>\<open>array_max\<close> (\<^verbatim>\<open>array_min\<close>) returns null when the fold feeds nothing and
  otherwise the maximum (minimum) of the fed doubles, also when all of them are negative
  (above the seed of \<^verbatim>\<open>array_min\<close>). The code: \<^verbatim>\<open>fl_array_max\<close> seeds its maximum with
  \<^verbatim>\<open>numeric_limits<double>::min()\<close>, the smallest positive double, not the lowest one; the
  seed takes part in every \<^verbatim>\<open>std::max\<close>, so \<^verbatim>\<open>array_max(doc([-1]))\<close> and
  \<^verbatim>\<open>array_max(doc([-3,-7]))\<close> are the seed, about 2.2e-308. In the same way
  \<^verbatim>\<open>array_min\<close> of an infinity is its seed \<^verbatim>\<open>numeric_limits<double>::max()\<close>.
\<close>

theorem array_max_negative_returns_seed:
  "fl_array_max sample_fleece [] [SQLBlob ''[-1]''] = [ResultDouble numeric_limits_min] \<and>
   fl_array_max sample_fleece [] [SQLBlob ''[-3,-7]''] = [ResultDouble numeric_limits_min] \<and>
   fl_array_min sample_fleece [] [SQLBlob ''[inf]''] = [ResultDouble numeric_limits_max]"
  by (simp add: fl_array_max_def fl_array_min_def result_defs sample_defs std_max_def std_min_def
      numeric_limits_min_def numeric_limits_max_def)

text \<open>Where the seed is not in the way the results are as claimed.\<close>

lemma array_max_min_examples:
  "fl_array_max sample_fleece [] [SQLBlob ''[2,9,4]''] = [ResultDouble (Fin 9)]"
  "fl_array_min sample_fleece [] [SQLBlob ''[2,9,4]''] = [ResultDouble (Fin 2)]"
  "fl_array_min sample_fleece [] [SQLBlob ''[-3,-7]''] = [ResultDouble (Fin (- 7))]"
  "fl_array_max sample_fleece [] [] = [ResultZeroblob 0]"
  "fl_array_min sample_fleece [] [] = [ResultZeroblob 0]"
  by (simp_all add: fl_array_max_def fl_array_min_def result_defs sample_defs std_max_def
      std_min_def numeric_limits_min_def numeric_limits_max_def)

subsection \<open>Conditionals on host NULLs\<close>

lemma conditionals_all_null:
  assumes "\<forall>a \<in> set argv. a = SQLNull"
  shows "ifmissing ctx argv = ctx" and "ifmissingornull cv ctx argv = ctx"
    and "ifnull cv ctx argv = ctx"
  using assms by (induction argv) auto

lemma missingif_all_null:
  "missingif cv ctx [SQLNull, SQLNull] = Inr (ctx @ [ResultNull, ResultNull])"
  by (simp add: missingif_def valueAsSlice_def slice_compare_def asString_def result_defs)

text \<open>
  C4. The claim: each of \<^verbatim>\<open>ifmissing\<close>, \<^verbatim>\<open>ifnull\<close>, \<^verbatim>\<open>ifmissingornull\<close>, \<^verbatim>\<open>nullif\<close> and
  \<^verbatim>\<open>missingif\<close> sets no result (the result is missing) when every argument is a host NULL.
  The code: the three loops write nothing (\<open>conditionals_all_null\<close>) and \<^verbatim>\<open>missingif\<close>
  writes host NULL twice (\<open>missingif_all_null\<close>), which the host reads as missing. But
  \<^verbatim>\<open>nullif\<close> writes host NULL for the absent operands and, having no \<^verbatim>\<open>return\<close> there, goes
  on to compare the two empty slices, finds them equal and overwrites the result with a
  zero-byte binary: null, not missing.
\<close>

theorem nullif_all_null_writes_null_blob:
  "nullif cv ctx [SQLNull, SQLNull] = Inr (ctx @ [ResultNull, ResultZeroblob 0]) \<and>
   outcome (nullif cv ctx [SQLNull, SQLNull]) =
     Some (if has_error ctx then HostFails SQLITE_ERROR (ResultZeroblob 0)
           else HostValue (ResultZeroblob 0)) \<and>
   outcome (nullif cv [] [SQLNull, SQLNull]) = Some (HostValue (ResultZeroblob 0))"
  by (simp add: nullif_def outcome_def host_result_def has_error_def valueAsSlice_def
      slice_compare_def asString_def result_defs)

subsection \<open>regexp_replace\<close>

text \<open>
  C5. The claim: \<^verbatim>\<open>regexp_replace(s, pat, repl, n)\<close> is \<open>s\<close> with the first \<open>n\<close> matches
  replaced, all of them without a fourth argument, and \<open>s\<close> itself when the pattern has no
  match. The code: after the loop it copies \<^verbatim>\<open>last_iter->suffix()\<close>, and \<^verbatim>\<open>last_iter\<close> is
  the position of the first match until the loop body has run. With no match it is the
  end-of-sequence iterator, which the code dereferences; with \<open>n = 0\<close> and a match the
  result is only what follows the first match: \<^verbatim>\<open>regexp_replace("aXbXcX", "X", "-", 0)\<close> is
  \<^verbatim>\<open>"bXcX"\<close>, not \<^verbatim>\<open>"aXbXcX"\<close>.
\<close>

theorem regexp_replace_no_match_and_zero:
  "regexp_replace literal_regex cv [] [SQLText ''abc'', SQLText ''X'', SQLText ''-''] =
     Inl EndIteratorDereference \<and>
   regexp_replace literal_regex cv []
     [SQLText ''aXbXcX'', SQLText ''X'', SQLText ''-'', SQLInteger 0] =
     Inr [ResultText ''bXcX'']"
  by (simp add: regexp_replace_def literal_regex_def valueAsStringSlice_def asString_def c_str_def
      sqlite3_value_int_def to_int32_def result_defs)

text \<open>With a match and \<open>n\<close> not 0 the results are as claimed.\<close>

lemma regexp_replace_examples:
  "regexp_replace literal_regex cv []
     [SQLText ''aXbXcX'', SQLText ''X'', SQLText ''-'', SQLInteger 2] = Inr [ResultText ''a-b-cX'']"
  "regexp_replace literal_regex cv [] [SQLText ''aXbXcX'', SQLText ''X'', SQLText ''-''] =
     Inr [ResultText ''a-b-c-'']"
  by (simp_all add: regexp_replace_def literal_regex_def valueAsStringSlice_def asString_def
      c_str_def sqlite3_value_int_def to_int32_def result_defs)

subsection \<open>tonumber\<close>

lemma deq_NaN_right: "deq a NaN = False"
  by (cases a) simp_all

lemma tonumber_other_cases:
  "tonumber stod cv ctx [SQLNull] = Inr (sqlite3_result_null ctx)"
  "tonumber stod cv ctx [SQLBlob b] = Inr (sqlite3_result_zeroblob ctx 0)"
  "tonumber stod cv ctx [SQLInteger i] = Inr (sqlite3_result_value ctx (SQLInteger i))"
  "tonumber stod cv ctx [SQLFloat d] = Inr (sqlite3_result_value ctx (SQLFloat d))"
  "stod s = Inr x \<Longrightarrow> tonumber stod cv ctx [SQLText s] = Inr (sqlite3_result_double ctx x)"
  by (simp_all add: tonumber_def tonumber_string_def asString_def deq_NaN_right)

text \<open>
  C6. The claim: \<^verbatim>\<open>tonumber\<close> returns missing for a host NULL, null for a zero-byte binary
  and for any document, the number itself for a number, the parsed number for a string,
  and null when \<^verbatim>\<open>stod\<close> finds the string invalid or out of range. The code does all of
  that (\<open>tonumber_other_cases\<close>) but the last: the failed parse is turned into \<^verbatim>\<open>NAN\<close> and
  tested with \<^verbatim>\<open>result == NAN\<close>, which is false for every double, so the zero-byte binary
  is never written and the callback calls \<^verbatim>\<open>sqlite3_result_double\<close> with the NaN.
\<close>

theorem tonumber_unparsable_text_writes_nan:
  assumes "stod s = Inl e"
  shows "tonumber stod cv ctx [SQLText s] = Inr (sqlite3_result_double ctx NaN)"
  using assms
  by (cases e) (simp_all add: tonumber_def tonumber_string_def asString_def)

theorem tonumber_unparsable_text_writes_nan_witness:
  "tonumber sample_stod sample_conv [] [SQLText ''abc''] = Inr (sqlite3_result_double [] NaN)"
  by (rule tonumber_unparsable_text_writes_nan [where e = invalid_argument])
     (simp add: sample_stod_def)

lemma tonumber_examples:
  "tonumber sample_stod sample_conv [] [SQLText ''abc''] = Inr [ResultDouble NaN]"
  "tonumber sample_stod sample_conv [] [SQLText ''1e999''] = Inr [ResultDouble NaN]"
  "tonumber sample_stod sample_conv [] [SQLText ''42''] = Inr [ResultDouble (Fin 42)]"
  by (simp_all add: tonumber_def tonumber_string_def asString_def sample_stod_def result_defs)

end
